theory Spec2Isabelle
  imports Complex_Main
begin

section \<open>Conventions of the embedding\<close>

text \<open>
  The TypeScript sources work with three kinds of numbers.
  \<^item> \<open>bigint\<close> values (block numbers, raw token amounts) are unbounded integers: \<open>int\<close>.
  \<^item> Millisecond clock readings (\<open>Date.now()\<close>) and blacklist expiries are integers
    far below \<open>2^53\<close>: \<open>int\<close>.
  \<^item> \<open>number\<close> values that hold ratios and USD totals (health factor, totals) are
    finite doubles. A finite double denotes one real number and comparing two doubles
    compares the reals they denote, so such a value is modelled by the \<open>real\<close> it
    denotes. Where the source converts a \<open>bigint\<close> with \<open>Number(x) / 1e<k>\<close> the
    rounding of the conversion is not fixed by the model: the conversion is a parameter
    \<open>numDiv\<close> of the functions that use it.
  Addresses are the hexadecimal strings the source passes around.
  Every clock reading, file content and RPC answer is an explicit argument.
\<close>

type_synonym address = string

definition zeroAddress :: address where
  "zeroAddress = ''0x0000000000000000000000000000000000000000''"

text \<open>\<open>String.prototype.toLowerCase\<close> on the ASCII letters an address can hold.\<close>

definition lowerChar :: "char \<Rightarrow> char" where
  "lowerChar c =
     (case map_of (zip ''ABCDEFGHIJKLMNOPQRSTUVWXYZ'' ''abcdefghijklmnopqrstuvwxyz'') c of
        None \<Rightarrow> c
      | Some d \<Rightarrow> d)"

definition toLowerCase :: "string \<Rightarrow> string" where
  "toLowerCase s = map lowerChar s"

section \<open>Blacklist store (lib/blacklist.ts)\<close>

text \<open>
  \<open>Blacklist = Record<string, number>\<close>: address to expiry in milliseconds. The file
  \<open>blacklist.json\<close> is \<open>None\<close> when it is missing or does not parse.
\<close>

type_synonym Blacklist = "string \<rightharpoonup> int"

definition loadBlacklist :: "Blacklist option \<Rightarrow> Blacklist" where
  "loadBlacklist file = (case file of None \<Rightarrow> Map.empty | Some bl \<Rightarrow> bl)"

text \<open>
  \<open>saveBlacklist\<close> catches a failing \<open>writeFileSync\<close> and only logs it: the flag
  \<open>writeOk\<close> says whether the write went through.
\<close>

definition saveBlacklist :: "bool \<Rightarrow> Blacklist option \<Rightarrow> Blacklist \<Rightarrow> Blacklist option" where
  "saveBlacklist writeOk file bl = (if writeOk then Some bl else file)"

text \<open>
  \<open>if (!expiry) return false; if (Date.now() > expiry) return false; return true\<close>.
  A missing key and the expiry \<open>0\<close> are both falsy.
\<close>

definition isBlacklisted :: "int \<Rightarrow> Blacklist \<Rightarrow> string \<Rightarrow> bool" where
  "isBlacklisted now bl addr =
     (case bl (toLowerCase addr) of
        None \<Rightarrow> False
      | Some expiry \<Rightarrow>
          if expiry = 0 then False
          else if now > expiry then False
          else True)"

text \<open>\<open>for (const k in bl) if (bl[k] < now) delete bl[k]\<close>\<close>

definition cleanupExpired :: "int \<Rightarrow> Blacklist \<Rightarrow> Blacklist" where
  "cleanupExpired now bl =
     (\<lambda>k. case bl k of
            None \<Rightarrow> None
          | Some expiry \<Rightarrow> if expiry < now then None else Some expiry)"

definition addToBlacklist ::
  "int \<Rightarrow> bool \<Rightarrow> Blacklist option \<Rightarrow> string \<Rightarrow> int \<Rightarrow> Blacklist option" where
  "addToBlacklist now writeOk file addr durationMs =
     (let bl = cleanupExpired now (loadBlacklist file);
          bl' = bl(toLowerCase addr \<mapsto> now + durationMs)
      in saveBlacklist writeOk file bl')"

definition defaultDurationMs :: int where
  "defaultDurationMs = 3600000"

section \<open>Health snapshots and candidates\<close>

text \<open>
  \<open>interface UserHealth\<close> (services/aaveScanner.ts). An optional field that is absent or
  \<open>undefined\<close> is \<open>None\<close>.
\<close>

record UserHealth =
  user :: address
  healthFactor :: real
  totalCollateralUSD :: real
  totalDebtUSD :: real
  bestDebt :: "address option"
  bestCollateral :: "address option"
  bestDebtAmount :: "int option"

section \<open>Health Engine (services/aaveScanner.ts)\<close>

text \<open>
  \<open>numDiv x k\<close> stands for the double \<open>Number(x) / 1e<k>\<close>. It is a parameter: every
  statement below holds for the rounding of the JavaScript engine as well as for the
  exact quotient.
\<close>

type_synonym numDiv = "int \<Rightarrow> nat \<Rightarrow> real"

definition exactDiv :: numDiv where
  "exactDiv x k = real_of_int x / 10 ^ k"

text \<open>The six values returned by \<open>Pool.getUserAccountData\<close>.\<close>

record AccountData =
  a_totalCollateralBase :: int
  a_totalDebtBase :: int
  a_availableBorrowsBase :: int
  a_currentLiquidationThreshold :: int
  a_ltv :: int
  a_healthFactor :: int

text \<open>The snapshot returned for \<open>hf >= 1.1\<close>: totals only.\<close>

definition coarseHealth :: "numDiv \<Rightarrow> address \<Rightarrow> AccountData \<Rightarrow> UserHealth" where
  "coarseHealth nd u d =
     \<lparr> user = u,
       healthFactor = nd (a_healthFactor d) 18,
       totalCollateralUSD = nd (a_totalCollateralBase d) 8,
       totalDebtUSD = nd (a_totalDebtBase d) 8,
       bestDebt = None,
       bestCollateral = None,
       bestDebtAmount = None \<rparr>"

text \<open>
  \<open>getUserHealthDetailed\<close>: one \<open>readContract\<close> of \<open>getUserAccountData\<close> for the
  account (\<open>readAccount u = None\<close> when it throws, which the function catches and turns
  into \<open>null\<close>). The best assets are not fetched here: the fields are the zero address
  and \<open>undefined\<close>.
\<close>

definition getUserHealthDetailed ::
  "numDiv \<Rightarrow> (address \<Rightarrow> AccountData option) \<Rightarrow> address \<Rightarrow> UserHealth option" where
  "getUserHealthDetailed nd readAccount u =
     (case readAccount u of
        None \<Rightarrow> None
      | Some d \<Rightarrow>
          Some \<lparr> user = u,
                 healthFactor = nd (a_healthFactor d) 18,
                 totalCollateralUSD = nd (a_totalCollateralBase d) 8,
                 totalDebtUSD = nd (a_totalDebtBase d) 8,
                 bestDebt = Some zeroAddress,
                 bestCollateral = Some zeroAddress,
                 bestDebtAmount = None \<rparr>)"

text \<open>
  The callback of \<open>results.map\<close> in \<open>getUsersHealthBatch\<close>, for the multicall entry
  \<open>r\<close> of account \<open>u\<close> (\<open>None\<close> when \<open>r.status !== "success" || !r.result\<close>). The
  second component lists the accounts for which a detailed \<open>readContract\<close> was issued.
\<close>

definition healthOfResult ::
  "numDiv \<Rightarrow> (address \<Rightarrow> AccountData option) \<Rightarrow> AccountData option \<times> address
     \<Rightarrow> UserHealth option \<times> address list" where
  "healthOfResult nd readAccount ru =
     (case fst ru of
        None \<Rightarrow> (None, [])
      | Some d \<Rightarrow>
          let hf = nd (a_healthFactor d) 18
          in if hf \<ge> 1.1 then (Some (coarseHealth nd (snd ru) d), [])
             else (getUserHealthDetailed nd readAccount (snd ru), [snd ru]))"

text \<open>
  \<open>getUsersHealthBatch\<close>. \<open>multicall users\<close> is the answer of \<open>client.multicall\<close>, one
  entry per account, or \<open>None\<close> when the call throws (then every account gets \<open>null\<close>).
\<close>

definition getUsersHealthBatch ::
  "numDiv \<Rightarrow> (address list \<Rightarrow> AccountData option list option) \<Rightarrow> (address \<Rightarrow> AccountData option)
     \<Rightarrow> address list \<Rightarrow> UserHealth option list \<times> address list" where
  "getUsersHealthBatch nd multicall readAccount users =
     (if length users = 0 then ([], [])
      else case multicall users of
             None \<Rightarrow> (map (\<lambda>_. None) users, [])
           | Some results \<Rightarrow>
               let hs = map (healthOfResult nd readAccount) (zip results users)
               in (map fst hs, concat (map snd hs)))"

section \<open>Best asset pair (lib/getUserAssets.ts)\<close>

definition TOP_RESERVES :: "address list" where
  "TOP_RESERVES =
     [''0xaf88d065e77c8cC2239327C5EDb3A432268e5831'',
      ''0xFd086bC7CD5C481DCC9C85ebE478A1C0b69FCbb9'',
      ''0x82aF49447D8a07e3bd95BD0d56f35241523fBab1'',
      ''0x912CE59144191C1204E64559FE8253a0e49E6548'',
      ''0x2f2a2543B76A4166549F7aaB2e75Bef0aefC5B0f'',
      ''0xDA10009cBd5D07dd0CeCc66161FC93D7c9000da1'']"

text \<open>
  What the loop reads on chain for one reserve and one user: the oracle price, the
  aToken balance and the variable-debt balance.
\<close>

record ReserveReads =
  r_price :: int
  r_aTokenBalance :: int
  r_debtBalance :: int

text \<open>The local variables of \<open>getUserAssets\<close>.\<close>

record AssetsVars =
  v_bestDebt :: "address option"
  v_bestCollateral :: "address option"
  v_maxDebtValue :: real
  v_maxCollateralValue :: real
  v_bestDebtAmount :: int

definition initVars :: AssetsVars where
  "initVars = \<lparr> v_bestDebt = None, v_bestCollateral = None, v_maxDebtValue = 0,
                 v_maxCollateralValue = 0, v_bestDebtAmount = 0 \<rparr>"

text \<open>\<open>const value = Number(balance * price) / 1e8\<close>\<close>

definition usdValue :: "numDiv \<Rightarrow> int \<Rightarrow> int \<Rightarrow> real" where
  "usdValue nd balance price = nd (balance * price) 8"

text \<open>One iteration of \<open>for (const reserveAsset of TOP_RESERVES)\<close>.\<close>

definition reserveStep :: "numDiv \<Rightarrow> address \<Rightarrow> ReserveReads \<Rightarrow> AssetsVars \<Rightarrow> AssetsVars" where
  "reserveStep nd reserveAsset x vars =
     (let vars1 =
            (if r_aTokenBalance x > 0 then
               let v = usdValue nd (r_aTokenBalance x) (r_price x)
               in if v > v_maxCollateralValue vars
                  then vars\<lparr> v_maxCollateralValue := v, v_bestCollateral := Some reserveAsset \<rparr>
                  else vars
             else vars)
      in if r_debtBalance x > 0 then
           let v = usdValue nd (r_debtBalance x) (r_price x)
           in if v > v_maxDebtValue vars1
              then vars1\<lparr> v_maxDebtValue := v, v_bestDebt := Some reserveAsset,
                           v_bestDebtAmount := r_debtBalance x \<rparr>
              else vars1
         else vars1)"

text \<open>
  The loop. \<open>reads r = None\<close> when one of the \<open>readContract\<close> calls for reserve \<open>r\<close>
  throws: nothing catches it, so the whole function throws.
\<close>

fun reservesLoop ::
  "numDiv \<Rightarrow> (address \<Rightarrow> ReserveReads option) \<Rightarrow> address list \<Rightarrow> AssetsVars \<Rightarrow> AssetsVars option" where
  "reservesLoop nd reads [] vars = Some vars"
| "reservesLoop nd reads (r # rs) vars =
     (case reads r of
        None \<Rightarrow> None
      | Some x \<Rightarrow> reservesLoop nd reads rs (reserveStep nd r x vars))"

record UserAssets =
  ua_bestDebt :: address
  ua_bestCollateral :: address
  ua_bestDebtAmount :: int

text \<open>
  \<open>getUserAssets\<close>, \<open>None\<close> when it throws. \<open>setupOk\<close> says whether the two reads
  before the loop (\<open>getPoolDataProvider\<close>, \<open>getPriceOracle\<close>) succeed.
\<close>

definition getUserAssets ::
  "numDiv \<Rightarrow> bool \<Rightarrow> (address \<Rightarrow> address \<Rightarrow> ReserveReads option) \<Rightarrow> address \<Rightarrow> UserAssets option" where
  "getUserAssets nd setupOk reads u =
     (if \<not> setupOk then None
      else case reservesLoop nd (reads u) TOP_RESERVES initVars of
             None \<Rightarrow> None
           | Some vars \<Rightarrow>
               Some \<lparr> ua_bestDebt = (case v_bestDebt vars of None \<Rightarrow> zeroAddress | Some a \<Rightarrow> a),
                      ua_bestCollateral =
                        (case v_bestCollateral vars of None \<Rightarrow> zeroAddress | Some a \<Rightarrow> a),
                      ua_bestDebtAmount = v_bestDebtAmount vars \<rparr>)"

section \<open>Candidate classification and the sentry scheduler\<close>

datatype status = below_watch | watch | exec_ready

text \<open>
  The candidate objects pushed by \<open>scanCmd\<close> and parsed back by \<open>planCmd\<close>
  (\<open>type AaveCandidate\<close>). Field names carry the prefix \<open>c_\<close> because several records
  of the source share field names. \<open>c_ts\<close> is the clock reading the ISO string encodes;
  \<open>c_bestDebtAmount\<close> is the integer the decimal string encodes.
\<close>

record Candidate =
  c_candidateId :: string
  c_borrower :: address
  c_healthFactor :: real
  c_proximity :: real
  c_totalCollateralUSD :: real
  c_totalDebtUSD :: real
  c_bestDebt :: "address option"
  c_bestCollateral :: "address option"
  c_bestDebtAmount :: "int option"
  c_status :: status
  c_ts :: int

text \<open>
  \<open>let candidateStatus = "below_watch"; if (hf < 1.0) candidateStatus = "exec_ready";
  else if (hf < 1.1) candidateStatus = "watch";\<close> (both versions of \<open>scanCmd\<close>).
  The double written \<open>1.1\<close> is the double nearest to \<open>11/10\<close> and lies just above it;
  no double lies between the two, so for a double \<open>hf\<close> the test \<open>hf < 1.1\<close> of the
  source and the test against the real \<open>11/10\<close> agree. \<open>1.0\<close> and \<open>1.5\<close> are exact.
\<close>

definition candidateStatus :: "real \<Rightarrow> status" where
  "candidateStatus hf =
     (if hf < 1.0 then exec_ready else if hf < 1.1 then watch else below_watch)"

text \<open>\<open>hf === 0 ? 100 : 1 / hf\<close> (the rounding of the quotient is not modelled).\<close>

definition proximity :: "real \<Rightarrow> real" where
  "proximity hf = (if hf = 0 then 100 else 1 / hf)"

definition candidateId :: "string \<Rightarrow> address \<Rightarrow> string" where
  "candidateId chainId u = chainId @ ''|'' @ u @ ''|aave''"

subsection \<open>One-shot scan: the health loop of the earlier \<open>scanCmd\<close>\<close>

text \<open>
  The body of \<open>for (const health of results)\<close> in the one-shot \<open>scanCmd\<close>: the result
  is the candidate pushed for this health result, if any. The statistics counters only
  feed the console display and are left out.
\<close>

definition scanCandidate :: "string \<Rightarrow> int \<Rightarrow> UserHealth option \<Rightarrow> Candidate option" where
  "scanCandidate chainId now health =
     (case health of
        None \<Rightarrow> None
      | Some h \<Rightarrow>
          let hf = healthFactor h;
              st = candidateStatus hf
          in if st = below_watch then None
             else if totalDebtUSD h < 10 then None
             else Some \<lparr> c_candidateId = candidateId chainId (user h),
                         c_borrower = user h,
                         c_healthFactor = hf,
                         c_proximity = proximity hf,
                         c_totalCollateralUSD = totalCollateralUSD h,
                         c_totalDebtUSD = totalDebtUSD h,
                         c_bestDebt = bestDebt h,
                         c_bestCollateral = bestCollateral h,
                         c_bestDebtAmount = bestDebtAmount h,
                         c_status = st,
                         c_ts = now \<rparr>)"

definition scanCandidates :: "string \<Rightarrow> int \<Rightarrow> UserHealth option list \<Rightarrow> Candidate list" where
  "scanCandidates chainId now results = List.map_filter (scanCandidate chainId now) results"

subsection \<open>Sentry daemon: one cycle of the loop of \<open>scanCmd\<close> (commands/scan.ts)\<close>

text \<open>
  A JavaScript \<open>Set<string>\<close> iterates in insertion order: it is a list without
  duplicates, \<open>add\<close> appends a new element and \<open>delete\<close> removes it.
\<close>

definition setAdd :: "'a \<Rightarrow> 'a list \<Rightarrow> 'a list" where
  "setAdd x xs = (if x \<in> set xs then xs else xs @ [x])"

definition setDelete :: "'a \<Rightarrow> 'a list \<Rightarrow> 'a list" where
  "setDelete x xs = removeAll x xs"

text \<open>\<open>Array.from(new Set(xs))\<close>: the first occurrence of each element, in order.\<close>

fun uniq :: "'a list \<Rightarrow> 'a list" where
  "uniq [] = []"
| "uniq (x # xs) = x # uniq (removeAll x xs)"

definition CHUNK_SIZE :: nat where
  "CHUNK_SIZE = 50"

text \<open>\<open>priorityUsers.filter(u => !isBlacklisted(blacklist, u))\<close>\<close>

definition displayPriority :: "int \<Rightarrow> Blacklist \<Rightarrow> address list \<Rightarrow> address list" where
  "displayPriority now bl prioritySet = filter (\<lambda>u. \<not> isBlacklisted now bl u) prioritySet"

text \<open>\<open>if (cursor >= dbUsers.length) cursor = 0; dbUsers.slice(cursor, cursor + CHUNK_SIZE)\<close>\<close>

definition resetCursor :: "nat \<Rightarrow> address list \<Rightarrow> nat" where
  "resetCursor cursor dbUsers = (if cursor \<ge> length dbUsers then 0 else cursor)"

definition bgChunk :: "nat \<Rightarrow> address list \<Rightarrow> address list" where
  "bgChunk cursor dbUsers = take CHUNK_SIZE (drop (resetCursor cursor dbUsers) dbUsers)"

text \<open>
  \<open>usersCheck\<close>: the accounts passed to \<open>getUsersHealthBatch\<close> in a cycle with a
  non-empty universe.
\<close>

definition usersCheck :: "int \<Rightarrow> Blacklist \<Rightarrow> address list \<Rightarrow> nat \<Rightarrow> address list \<Rightarrow> address list" where
  "usersCheck now bl prioritySet cursor dbUsers =
     uniq (displayPriority now bl prioritySet @ bgChunk cursor dbUsers)"

text \<open>
  The body of \<open>for (const health of results)\<close> in the sentry loop, on the pair
  (priority set, candidates of this cycle). \<open>stateHF\<close> and the statistics counters only
  feed the console display and are left out. The candidates of the sentry loop carry no
  \<open>bestDebtAmount\<close>.
\<close>

definition sentryResult ::
  "string \<Rightarrow> int \<Rightarrow> Blacklist \<Rightarrow> address list \<times> Candidate list \<Rightarrow> UserHealth option
     \<Rightarrow> address list \<times> Candidate list" where
  "sentryResult chainId now bl acc health =
     (case health of
        None \<Rightarrow> acc
      | Some h \<Rightarrow>
          let hf = healthFactor h;
              u = user h;
              ps = (if hf < 1.5 \<and> hf > 0 then setAdd u (fst acc) else setDelete u (fst acc));
              st = candidateStatus hf
          in if st = below_watch then (ps, snd acc)
             else if totalCollateralUSD h < 1 \<and> totalDebtUSD h < 1 then (setDelete u ps, snd acc)
             else if isBlacklisted now bl u then (setDelete u ps, snd acc)
             else (ps, snd acc @
                    [\<lparr> c_candidateId = candidateId chainId u,
                       c_borrower = u,
                       c_healthFactor = hf,
                       c_proximity = proximity hf,
                       c_totalCollateralUSD = totalCollateralUSD h,
                       c_totalDebtUSD = totalDebtUSD h,
                       c_bestDebt = bestDebt h,
                       c_bestCollateral = bestCollateral h,
                       c_bestDebtAmount = None,
                       c_status = st,
                       c_ts = now \<rparr>]))"

text \<open>
  The loop over the results of one cycle, started with the priority set carried over
  from the previous cycle and an empty candidate list.
\<close>

definition sentryResults ::
  "string \<Rightarrow> int \<Rightarrow> Blacklist \<Rightarrow> address list \<Rightarrow> UserHealth option list
     \<Rightarrow> address list \<times> Candidate list" where
  "sentryResults chainId now bl prioritySet results =
     foldl (sentryResult chainId now bl) (prioritySet, []) results"

text \<open>
  The scheduler state of the sentry loop: \<open>cursor\<close>, \<open>cycleCount\<close>, \<open>prioritySet\<close> and
  the in-memory universe \<open>dbUsers\<close>.
\<close>

record SentryState =
  cursor :: nat
  cycleCount :: nat
  prioritySet :: "address list"
  dbUsers :: "address list"

text \<open>
  One iteration of \<open>while (true)\<close>. \<open>blFile\<close> is the blacklist file read at the start
  of the cycle, \<open>healthBatch\<close> the answer of \<open>scanner.getUsersHealthBatch\<close>, \<open>fresh\<close>
  the content of \<open>borrowers.json\<close> at the hot reload (\<open>None\<close> when the read fails).
  The two synchronous passes of a cycle (the priority filter, the loop over the results)
  each take one clock reading, \<open>tFilter\<close> and \<open>tCheck\<close>. The result is the new state,
  the accounts passed to the Health Engine and the candidates written for the cycle.
\<close>

definition sentryCycle ::
  "string \<Rightarrow> int \<Rightarrow> int \<Rightarrow> Blacklist option \<Rightarrow> (address list \<Rightarrow> UserHealth option list)
     \<Rightarrow> address list option \<Rightarrow> SentryState \<Rightarrow> SentryState \<times> address list \<times> Candidate list" where
  "sentryCycle chainId tFilter tCheck blFile healthBatch fresh s =
     (let bl = loadBlacklist blFile;
          (s1, checked, cands) =
            (if length (dbUsers s) > 0 then
               let users = usersCheck tFilter bl (prioritySet s) (cursor s) (dbUsers s);
                   (ps, cs) = sentryResults chainId tCheck bl (prioritySet s) (healthBatch users)
               in (s\<lparr> cursor := resetCursor (cursor s) (dbUsers s) + CHUNK_SIZE,
                       prioritySet := ps \<rparr>, users, cs)
             else (s, [], []));
          s2 = (if cycleCount s1 mod 250 = 0 then
                  (case fresh of
                     None \<Rightarrow> s1
                   | Some freshUsers \<Rightarrow>
                       if length freshUsers > length (dbUsers s1)
                       then s1\<lparr> dbUsers := freshUsers \<rparr> else s1)
                else s1)
      in (s2\<lparr> cycleCount := cycleCount s2 + 1 \<rparr>, checked, cands))"

section \<open>Sync pointers of the discovery scanner (\<open>scanCmd\<close>)\<close>

text \<open>
  \<open>sync_head.json\<close> holds \<open>lastBlock\<close> and \<open>sync_deep.json\<close> holds \<open>deepBlock\<close>; a
  file that is missing or unreadable is \<open>None\<close>.
\<close>

record SyncFiles =
  lastBlock :: "int option"
  deepBlock :: "int option"

definition MAX_WINDOW :: int where
  "MAX_WINDOW = 10000"

text \<open>
  The window policy, from \<open>let fromBlock = ...\<close> to the end of the auto-expansion
  \<open>if\<close>: the result is \<open>(fromBlock, toBlock, isBackfill)\<close>. The one-shot \<open>scanCmd\<close>
  names the backfill window \<open>MEGA_WINDOW\<close>; it is \<open>10000n\<close> as well.
\<close>

definition syncWindow :: "int \<Rightarrow> int \<Rightarrow> int \<Rightarrow> nat \<Rightarrow> int \<times> int \<times> bool" where
  "syncWindow lastScanned deepHead currentBlock nUsers =
     (let fromBlock = (if lastScanned = 0 then currentBlock - MAX_WINDOW else lastScanned + 1);
          toBlock0 = fromBlock + MAX_WINDOW;
          toBlock = (if toBlock0 > currentBlock then currentBlock else toBlock0)
      in if nUsers < 50000 then
           let deepHead1 = (if deepHead = 0 then currentBlock else deepHead);
               toBlockB = deepHead1 - 1;
               fromBlockB0 = toBlockB - MAX_WINDOW;
               fromBlockB = (if fromBlockB0 < 10000000 then toBlockB - 1000 else fromBlockB0)
           in (fromBlockB, toBlockB, True)
         else if fromBlock < currentBlock - MAX_WINDOW * 5
              then (currentBlock - MAX_WINDOW, currentBlock - MAX_WINDOW + MAX_WINDOW, False)
              else (fromBlock, toBlock, False))"

text \<open>
  One discovery pass on the pointer files. \<open>currentBlock\<close> is the answer of
  \<open>getBlockNumber\<close>, \<open>nUsers\<close> is \<open>dbUsers.length\<close>, and \<open>ok\<close> says whether \<open>getLogs\<close>
  and the writes that precede the pointer write succeed: in commands/scan.ts a failure
  is caught and logged, in the one-shot \<open>scanCmd\<close> it rejects the command; in both the
  pointer files stay as they are.
\<close>

definition syncStep :: "SyncFiles \<Rightarrow> nat \<Rightarrow> nat \<Rightarrow> bool \<Rightarrow> SyncFiles" where
  "syncStep files currentBlock nUsers ok =
     (let lastScanned = (case lastBlock files of None \<Rightarrow> 0 | Some b \<Rightarrow> b);
          deepHead = (case deepBlock files of None \<Rightarrow> int currentBlock | Some d \<Rightarrow> d);
          (fromBlock, toBlock, isBackfill) = syncWindow lastScanned deepHead (int currentBlock) nUsers
      in if \<not> isBackfill \<and> fromBlock > toBlock then files
         else if \<not> ok then files
         else if isBackfill then files\<lparr> deepBlock := Some fromBlock \<rparr>
         else files\<lparr> lastBlock := Some toBlock \<rparr>)"

text \<open>
  commands/scan.ts runs the pass only when the mode is not \<open>"sentry"\<close>; the one-shot
  \<open>scanCmd\<close> always runs it (it behaves as \<open>minerStep\<close> with any other mode).
\<close>

definition minerStep :: "string \<Rightarrow> SyncFiles \<Rightarrow> nat \<Rightarrow> nat \<Rightarrow> bool \<Rightarrow> SyncFiles" where
  "minerStep mode files currentBlock nUsers ok =
     (if mode \<noteq> ''sentry'' then syncStep files currentBlock nUsers ok else files)"

text \<open>A cycle's inputs, and a sequence of scan cycles.\<close>

record ScanInput =
  in_mode :: string
  in_currentBlock :: nat
  in_nUsers :: nat
  in_ok :: bool

definition scanCycle :: "SyncFiles \<Rightarrow> ScanInput \<Rightarrow> SyncFiles" where
  "scanCycle files i = minerStep (in_mode i) files (in_currentBlock i) (in_nUsers i) (in_ok i)"

definition scanCycles :: "SyncFiles \<Rightarrow> ScanInput list \<Rightarrow> SyncFiles" where
  "scanCycles files inputs = foldl scanCycle files inputs"

text \<open>\<open>lastScanned\<close> as the next cycle reads it: \<open>0n\<close> when the file is missing.\<close>

definition lastScanned :: "SyncFiles \<Rightarrow> int" where
  "lastScanned files = (case lastBlock files of None \<Rightarrow> 0 | Some b \<Rightarrow> b)"

section \<open>Planner (commands/plan.ts)\<close>

subsection \<open>Swap path encoding\<close>

definition hexNo0x :: "string \<Rightarrow> string" where
  "hexNo0x h = (if take 2 h = ''0x'' then drop 2 h else h)"

definition hexDigit :: "nat \<Rightarrow> char" where
  "hexDigit d = ''0123456789abcdef'' ! d"

text \<open>\<open>Number.prototype.toString(16)\<close> on a non-negative integer.\<close>

function toString16 :: "nat \<Rightarrow> string" where
  "toString16 n = (if n < 16 then [hexDigit n] else toString16 (n div 16) @ [hexDigit (n mod 16)])"
  by pat_completeness auto
termination
  by (relation "measure (\<lambda>n. n)") auto

declare toString16.simps [simp del]

definition padStart :: "nat \<Rightarrow> char \<Rightarrow> string \<Rightarrow> string" where
  "padStart n c s = replicate (n - length s) c @ s"

text \<open>
  \<open>padFee3Bytes\<close>: \<open>Math.trunc(Number(fee)).toString(16).padStart(6, "0")\<close>. A fee is an
  integer here; \<open>None\<close> is \<open>undefined\<close> (the \<open>fees\<close> array is too short), which becomes
  \<open>NaN\<close> and prints as \<open>"NaN"\<close>. A negative number prints with a minus sign.
\<close>

definition padFee3Bytes :: "int option \<Rightarrow> string" where
  "padFee3Bytes fee =
     padStart 6 (CHR ''0'')
       (case fee of
          None \<Rightarrow> ''NaN''
        | Some f \<Rightarrow> if f < 0 then ''-'' @ toString16 (nat (- f)) else toString16 (nat f))"

text \<open>
  The loop of \<open>encodeV3Path\<close> from hop \<open>i\<close> on: \<open>bs\<close> are the tokens
  \<open>tokens[i+1], tokens[i+2], ...\<close> and \<open>fees\<close> the fees \<open>fees[i], fees[i+1], ...\<close>; each
  iteration appends \<open>feeHex + b\<close>.
\<close>

fun encodeHops :: "string list \<Rightarrow> int list \<Rightarrow> string" where
  "encodeHops [] fees = []"
| "encodeHops (b # bs) fees =
     padFee3Bytes (case fees of [] \<Rightarrow> None | f # _ \<Rightarrow> Some f) @ hexNo0x b
       @ encodeHops bs (case fees of [] \<Rightarrow> [] | _ # fs \<Rightarrow> fs)"

text \<open>
  \<open>encodeV3Path\<close>: the first token is appended at \<open>i === 0\<close>; with fewer than two
  tokens the loop does not run and the result is \<open>"0x"\<close>.
\<close>

definition encodeV3Path :: "string list \<Rightarrow> int list \<Rightarrow> string" where
  "encodeV3Path tokens fees =
     ''0x'' @ (case tokens of
                 [] \<Rightarrow> []
               | a # bs \<Rightarrow> (if bs = [] then [] else hexNo0x a @ encodeHops bs fees))"

subsection \<open>Decoding a swap path\<close>

definition hexValue :: "char \<Rightarrow> nat option" where
  "hexValue c = map_of (zip ''0123456789abcdefABCDEF'' ([0..<16] @ [10..<16])) c"

text \<open>A big-endian hexadecimal numeral.\<close>

fun parseHexFrom :: "nat \<Rightarrow> string \<Rightarrow> nat option" where
  "parseHexFrom acc [] = Some acc"
| "parseHexFrom acc (c # cs) =
     (case hexValue c of
        None \<Rightarrow> None
      | Some d \<Rightarrow> parseHexFrom (16 * acc + d) cs)"

text \<open>
  Modelled from the spec: the repository has no decoder of swap paths (the path is
  consumed by the external swap router). The decoder follows the words of the spec: the
  path is split back into alternating 20-byte token and 3-byte big-endian fee segments,
  that is, 40 and 6 hexadecimal digits after the \<open>0x\<close> prefix. Tokens are returned as
  \<open>0x\<close>-prefixed addresses.
\<close>

function decodeHops_spec :: "string \<Rightarrow> (string list \<times> int list) option" where
  "decodeHops_spec s =
     (if s = [] then Some ([], [])
      else if length s < 46 then None
      else case parseHexFrom 0 (take 6 s) of
             None \<Rightarrow> None
           | Some fee \<Rightarrow>
               (case decodeHops_spec (drop 46 s) of
                  None \<Rightarrow> None
                | Some (ts, fs) \<Rightarrow> Some ((''0x'' @ take 40 (drop 6 s)) # ts, int fee # fs)))"
  by pat_completeness auto
termination
  by (relation "measure length") auto

declare decodeHops_spec.simps [simp del]

definition decodeV3Path_spec :: "string \<Rightarrow> (string list \<times> int list) option" where
  "decodeV3Path_spec p =
     (if take 2 p \<noteq> ''0x'' then None
      else let s = drop 2 p
           in if length s < 40 then None
              else case decodeHops_spec (drop 40 s) of
                     None \<Rightarrow> None
                   | Some (ts, fs) \<Rightarrow> Some ((''0x'' @ take 40 s) # ts, fs))"

subsection \<open>Orders and plan items\<close>

text \<open>
  \<open>type ExecutorOrder\<close> and \<open>type TxPlanItem\<close>, with the prefixes \<open>o_\<close> and \<open>i_\<close>.
  The note of an item is one of four texts (the rendering of the health factor in it is
  not modelled).
\<close>

record ExecutorOrder =
  o_debtAsset :: address
  o_collateralAsset :: address
  o_borrower :: address
  o_repayAmount :: int
  o_uniPath :: string
  o_amountOutMin :: int
  o_minProfit :: int
  o_deadline :: int
  o_maxTxGasPrice :: int
  o_referralCode :: int
  o_nonce :: int

datatype PlanAction = EXEC | WATCH | SKIP

datatype Note = HF_NOTE | EXEC_READY_ORDER_BUILT | ORDER_BUILD_SKIPPED | MISSING_BEST_ASSETS

record TxPlanItem =
  i_ts :: int
  i_candidateId :: string
  i_borrower :: address
  i_netProfitUsd :: real
  i_proximity :: real
  i_action :: PlanAction
  i_pass :: bool
  i_note :: Note
  i_order :: "ExecutorOrder option"

record TxPlan =
  tp_items :: "TxPlanItem list"
  tp_generatedAt :: "int option"
  tp_execBuilt :: nat

text \<open>The \<open>/\<close> of \<open>bigint\<close>: the quotient truncated toward zero.\<close>

definition bigintDiv :: "int \<Rightarrow> int \<Rightarrow> int" where
  "bigintDiv a b = sgn a * sgn b * (\<bar>a\<bar> div \<bar>b\<bar>)"

text \<open>\<open>!x || x === "0x0000000000000000000000000000000000000000"\<close>\<close>

definition isMissing :: "address option \<Rightarrow> bool" where
  "isMissing a = (case a of None \<Rightarrow> True | Some s \<Rightarrow> s = [] \<or> s = zeroAddress)"

text \<open>
  What \<open>planCmd\<close> reads once: the ISO time \<open>now\<close> and the two environment defaults.
\<close>

record PlanEnv =
  p_now :: int
  p_referralCode :: int
  p_maxTxGasPriceWei :: int

datatype PlanError = MissingCandidatesFile | GetUserAssetsThrew | PathTypeError

text \<open>
  The body of \<open>for (const c of candidates)\<close>: \<open>Inr None\<close> is \<open>continue\<close>, \<open>Inr (Some item)\<close>
  is the item pushed, \<open>Inl e\<close> is an exception that nothing catches. \<open>tDeadline\<close> and
  \<open>tNonce\<close> are the two readings of \<open>Date.now()\<close>; \<open>fetchAssets\<close> is the just-in-time
  \<open>getUserAssets\<close> call (\<open>None\<close> when it throws). The order and the path are built from
  the candidate's own \<open>c.bestDebt\<close> and \<open>c.bestCollateral\<close>; \<open>hexNo0x\<close> of an undefined
  one is a \<open>TypeError\<close>. The local variables \<open>bestDebt\<close>, \<open>bestCollateral\<close> and
  \<open>bestDebtAmount\<close> carry the suffix \<open>1\<close>.
\<close>

definition planItem ::
  "PlanEnv \<Rightarrow> int \<Rightarrow> int \<Rightarrow> (address \<Rightarrow> UserAssets option) \<Rightarrow> Candidate
     \<Rightarrow> PlanError + TxPlanItem option" where
  "planItem env tDeadline tNonce fetchAssets c =
     (if c_status c = below_watch then Inr None
      else
        let item = \<lparr> i_ts = p_now env,
                      i_candidateId = c_candidateId c,
                      i_borrower = c_borrower c,
                      i_netProfitUsd = 0,
                      i_proximity = c_proximity c,
                      i_action = WATCH,
                      i_pass = False,
                      i_note = HF_NOTE,
                      i_order = None \<rparr>
        in if c_status c \<noteq> exec_ready then Inr (Some item)
           else
             case (if isMissing (c_bestDebt c) then
                     (case fetchAssets (c_borrower c) of
                        None \<Rightarrow> None
                      | Some assets \<Rightarrow>
                          Some (Some (ua_bestDebt assets), Some (ua_bestCollateral assets),
                                ua_bestDebtAmount assets))
                   else Some (c_bestDebt c, c_bestCollateral c,
                              (case c_bestDebtAmount c of None \<Rightarrow> 0 | Some n \<Rightarrow> n))) of
               None \<Rightarrow> Inl GetUserAssetsThrew
             | Some (bestDebt1, bestCollateral1, bestDebtAmount1) \<Rightarrow>
                 if \<not> isMissing bestDebt1 \<and> \<not> isMissing bestCollateral1 then
                   if bestDebtAmount1 > 0 then
                     (case (c_bestCollateral c, c_bestDebt c) of
                        (Some collateral, Some debt) \<Rightarrow>
                          Inr (Some (item
                            \<lparr> i_action := EXEC,
                              i_note := EXEC_READY_ORDER_BUILT,
                              i_pass := True,
                              i_order := Some
                                \<lparr> o_debtAsset = debt,
                                  o_collateralAsset = collateral,
                                  o_borrower = c_borrower c,
                                  o_repayAmount = bigintDiv bestDebtAmount1 2,
                                  o_uniPath = encodeV3Path [collateral, debt] [3000],
                                  o_amountOutMin = 0,
                                  o_minProfit = 0,
                                  o_deadline = tDeadline div 1000 + 300,
                                  o_maxTxGasPrice = p_maxTxGasPriceWei env,
                                  o_referralCode = p_referralCode env,
                                  o_nonce = tNonce \<rparr> \<rparr>))
                      | _ \<Rightarrow> Inl PathTypeError)
                   else Inr (Some (item\<lparr> i_note := ORDER_BUILD_SKIPPED \<rparr>))
                 else Inr (Some (item\<lparr> i_note := MISSING_BEST_ASSETS \<rparr>)))"

text \<open>
  The loop over the candidates; \<open>clock k\<close> gives the two clock readings taken while
  planning the candidate at position \<open>k\<close>.
\<close>

fun planItems ::
  "PlanEnv \<Rightarrow> (nat \<Rightarrow> int \<times> int) \<Rightarrow> (address \<Rightarrow> UserAssets option) \<Rightarrow> nat \<Rightarrow> Candidate list
     \<Rightarrow> PlanError + TxPlanItem list" where
  "planItems env clock fetchAssets k [] = Inr []"
| "planItems env clock fetchAssets k (c # cs) =
     (case planItem env (fst (clock k)) (snd (clock k)) fetchAssets c of
        Inl e \<Rightarrow> Inl e
      | Inr r \<Rightarrow>
          (case planItems env clock fetchAssets (k + 1) cs of
             Inl e \<Rightarrow> Inl e
           | Inr items \<Rightarrow> Inr ((case r of None \<Rightarrow> [] | Some item \<Rightarrow> [item]) @ items)))"

text \<open>
  \<open>planCmd\<close>: the plan written to \<open>tx_plan.json\<close>. \<open>candFile\<close> is the parsed
  \<open>candidates.jsonl\<close>, \<open>None\<close> when the file does not exist.
\<close>

definition planCmd ::
  "PlanEnv \<Rightarrow> (nat \<Rightarrow> int \<times> int) \<Rightarrow> (address \<Rightarrow> UserAssets option) \<Rightarrow> Candidate list option
     \<Rightarrow> PlanError + TxPlan" where
  "planCmd env clock fetchAssets candFile =
     (case candFile of
        None \<Rightarrow> Inl MissingCandidatesFile
      | Some candidates \<Rightarrow>
          (case planItems env clock fetchAssets 0 candidates of
             Inl e \<Rightarrow> Inl e
           | Inr items \<Rightarrow>
               Inr \<lparr> tp_items = items,
                      tp_generatedAt = Some (p_now env),
                      tp_execBuilt = length (filter (\<lambda>i. i_action i = EXEC) items) \<rparr>))"

section \<open>Execution Safety Layer (\<open>execCmd\<close>)\<close>

datatype ErrKind = SKIP_HEALTHY | FAIL

text \<open>\<open>String.prototype.includes\<close> (\<open>includes\<close> is a keyword of Isabelle).\<close>

fun includesStr :: "string \<Rightarrow> string \<Rightarrow> bool" where
  "includesStr [] p = (p = [])"
| "includesStr (c # cs) p = (take (length p) (c # cs) = p \<or> includesStr cs p)"

definition classifyErr :: "string \<Rightarrow> ErrKind" where
  "classifyErr msg =
     (let m = toLowerCase msg
      in if includesStr m ''health factor'' \<or> includesStr m ''healthy'' \<or> includesStr m ''no collateral''
         then SKIP_HEALTHY else FAIL)"

text \<open>
  The configuration and environment \<open>execCmd\<close> checks first, and the outside world it
  talks to. Attempts are numbered by \<open>tried\<close>. \<open>w_gasPrice\<close> is \<open>None\<close> when
  \<open>getGasPrice\<close> throws; \<open>w_simulate\<close> and \<open>w_broadcast\<close> answer \<open>Inl message\<close> when
  the call throws; \<open>w_writeExec\<close> is the message of the error when writing
  \<open>tx_exec.json\<close> throws, inside the same \<open>try\<close>.
\<close>

record ExecConfig =
  cfg_execEnabled :: bool
  cfg_hasPrivateKey :: bool
  cfg_executorAddrValid :: bool
  cfg_orderDeadlineSec :: int
  cfg_maxTxGasPriceWei :: int

record ExecWorld =
  w_gasPrice :: "nat \<Rightarrow> int option"
  w_simulate :: "ExecutorOrder \<Rightarrow> string + int"
  w_broadcast :: "ExecutorOrder \<Rightarrow> int \<Rightarrow> string + string"
  w_writeExec :: "string option"
  w_nonceClock :: "nat \<Rightarrow> int"
  w_blacklistClock :: "nat \<Rightarrow> int"
  w_blacklistWriteOk :: bool

datatype ExecEvent =
    Simulated ExecutorOrder
  | BroadcastSent ExecutorOrder int string
  | BroadcastFailed ExecutorOrder int
  | Blacklisted address ErrKind

datatype ExecOutcome =
    Threw
  | NothingToExecute
  | StalePlan
  | LiquidationSent string
  | NoExecutableOrder

text \<open>
  The priority fee in wei (the products are taken in the reals: the rounding of the
  doubles is not modelled).
\<close>

definition priorityFee :: "real \<Rightarrow> int" where
  "priorityFee profitUsd =
     (let targetFeeUsd0 = profitUsd * 0.10;
          targetFeeUsd = (if targetFeeUsd0 > 2.0 then 2.0 else targetFeeUsd0);
          priorityGwei0 = targetFeeUsd * 0.6;
          priorityGwei = (if priorityGwei0 < 0.1 then 0.1 else priorityGwei0)
      in \<lfloor>priorityGwei * 1000000000\<rfloor>)"

text \<open>
  \<open>for (const selected of execs)\<close>. The result is the outcome, the simulations,
  broadcasts and blacklist writes performed, in order, and the blacklist file at the end.
  Both kinds of caught error blacklist the borrower and go on with the next order.
\<close>

fun execLoop ::
  "ExecConfig \<Rightarrow> ExecWorld \<Rightarrow> int \<Rightarrow> nat \<Rightarrow> Blacklist option \<Rightarrow> TxPlanItem list
     \<Rightarrow> ExecOutcome \<times> ExecEvent list \<times> Blacklist option" where
  "execLoop cfg w refreshedDeadline tried bl [] = (NoExecutableOrder, [], bl)"
| "execLoop cfg w refreshedDeadline tried bl (selected # rest) =
     (let tried1 = tried + 1
      in case w_gasPrice w tried1 of
           None \<Rightarrow> (Threw, [], bl)
         | Some currentGasPrice \<Rightarrow>
             if currentGasPrice > cfg_maxTxGasPriceWei cfg
             then execLoop cfg w refreshedDeadline tried1 bl rest
             else
               (case i_order selected of
                  None \<Rightarrow> (Threw, [], bl)
                | Some selectedOrder \<Rightarrow>
                    let order = selectedOrder
                          \<lparr> o_deadline := refreshedDeadline,
                            o_nonce := w_nonceClock w tried1 + int tried1 \<rparr>;
                        fee = priorityFee (i_netProfitUsd selected);
                        caught = (\<lambda>evs msg.
                          let bl1 = addToBlacklist (w_blacklistClock w tried1)
                                      (w_blacklistWriteOk w) bl (i_borrower selected)
                                      defaultDurationMs;
                              (out, evs1, bl2) = execLoop cfg w refreshedDeadline tried1 bl1 rest
                          in (out, evs @ [Blacklisted (i_borrower selected) (classifyErr msg)] @ evs1,
                              bl2))
                    in case w_simulate w order of
                         Inl msg \<Rightarrow> caught [Simulated order] msg
                       | Inr gas \<Rightarrow>
                           (case w_broadcast w order fee of
                              Inl msg \<Rightarrow> caught [Simulated order, BroadcastFailed order fee] msg
                            | Inr hash \<Rightarrow>
                                (case w_writeExec w of
                                   None \<Rightarrow>
                                     (LiquidationSent hash,
                                      [Simulated order, BroadcastSent order fee hash], bl)
                                 | Some msg \<Rightarrow>
                                     caught [Simulated order, BroadcastSent order fee hash]
                                       msg))))"

definition maxAgeSec :: real where
  "maxAgeSec = 90"

text \<open>
  \<open>execCmd\<close>. \<open>planFile\<close> is the parsed \<open>tx_plan.json\<close> (\<open>None\<close> when reading or parsing
  throws); \<open>tStart\<close> and \<open>tAge\<close> are the readings of \<open>Date.now()\<close> for the refreshed
  deadline and for the plan age. A missing or unparsable \<open>generatedAt\<close> makes the plan
  age \<open>NaN\<close>, and \<open>NaN > maxAgeSec\<close> is false. For the integers at hand the double
  \<open>(Date.now() - Date.parse(...)) / 1000\<close> exceeds \<open>90\<close> exactly when the real quotient
  does.
\<close>

definition execCmd ::
  "ExecConfig \<Rightarrow> ExecWorld \<Rightarrow> int \<Rightarrow> int \<Rightarrow> Blacklist option \<Rightarrow> TxPlan option
     \<Rightarrow> ExecOutcome \<times> ExecEvent list \<times> Blacklist option" where
  "execCmd cfg w tStart tAge bl planFile =
     (if \<not> cfg_execEnabled cfg then (Threw, [], bl)
      else if \<not> cfg_hasPrivateKey cfg then (Threw, [], bl)
      else if \<not> cfg_executorAddrValid cfg then (Threw, [], bl)
      else case planFile of
             None \<Rightarrow> (Threw, [], bl)
           | Some plan \<Rightarrow>
               let execs = sort_key (\<lambda>x. - i_netProfitUsd x)
                             (filter (\<lambda>x. i_action x = EXEC \<and> i_pass x \<and> i_order x \<noteq> None)
                                (tp_items plan))
               in if length execs = 0 then (NothingToExecute, [], bl)
                  else
                    let refreshedDeadline = tStart div 1000 + max 60 (cfg_orderDeadlineSec cfg);
                        stale = (case tp_generatedAt plan of
                                   None \<Rightarrow> False
                                 | Some generatedAt \<Rightarrow>
                                     real_of_int (tAge - generatedAt) / 1000 > maxAgeSec)
                    in if stale then (StalePlan, [], bl)
                       else execLoop cfg w refreshedDeadline 0 bl execs)"

section \<open>Auxiliary notions for the statements\<close>

text \<open>The entries of a result list that are not \<open>null\<close>.\<close>

fun somes :: "'a option list \<Rightarrow> 'a list" where
  "somes [] = []"
| "somes (None # xs) = somes xs"
| "somes (Some x # xs) = x # somes xs"

text \<open>
  The loop invariants of \<open>getUserAssets\<close> after the reserves \<open>seen\<close>: the running
  maximum bounds the USD value of every positive balance seen, and the best asset, when
  there is one, is a reserve seen whose positive balance has exactly that value.
\<close>

definition debtInv ::
  "numDiv \<Rightarrow> (address \<Rightarrow> ReserveReads option) \<Rightarrow> address list \<Rightarrow> AssetsVars \<Rightarrow> bool" where
  "debtInv nd reads seen vars \<longleftrightarrow>
     (\<forall>r \<in> set seen. \<forall>x. reads r = Some x \<longrightarrow> 0 < r_debtBalance x \<longrightarrow>
         usdValue nd (r_debtBalance x) (r_price x) \<le> v_maxDebtValue vars)
     \<and> (case v_bestDebt vars of
           None \<Rightarrow> v_maxDebtValue vars = 0 \<and> v_bestDebtAmount vars = 0
         | Some b \<Rightarrow>
             b \<in> set seen
             \<and> (\<exists>x. reads b = Some x \<and> 0 < r_debtBalance x
                    \<and> r_debtBalance x = v_bestDebtAmount vars
                    \<and> usdValue nd (r_debtBalance x) (r_price x) = v_maxDebtValue vars
                    \<and> 0 < v_maxDebtValue vars))"

definition collateralInv ::
  "numDiv \<Rightarrow> (address \<Rightarrow> ReserveReads option) \<Rightarrow> address list \<Rightarrow> AssetsVars \<Rightarrow> bool" where
  "collateralInv nd reads seen vars \<longleftrightarrow>
     (\<forall>r \<in> set seen. \<forall>x. reads r = Some x \<longrightarrow> 0 < r_aTokenBalance x \<longrightarrow>
         usdValue nd (r_aTokenBalance x) (r_price x) \<le> v_maxCollateralValue vars)
     \<and> (case v_bestCollateral vars of
           None \<Rightarrow> v_maxCollateralValue vars = 0
         | Some b \<Rightarrow>
             b \<in> set seen
             \<and> (\<exists>x. reads b = Some x \<and> 0 < r_aTokenBalance x
                    \<and> usdValue nd (r_aTokenBalance x) (r_price x) = v_maxCollateralValue vars
                    \<and> 0 < v_maxCollateralValue vars))"

section \<open>Example inputs\<close>

text \<open>
  Concrete inputs on which the statements below are evaluated. An account with health
  factor 0.95, 550 USD of collateral and 500 USD of debt: its account data on chain, the
  snapshot of the detailed call, the candidate the sentry loop emits for it (placeholder
  assets), the reserve reads in which it owes 500000001 raw units of USDC against WETH
  collateral, and the assets \<open>getUserAssets\<close> finds from them. A plan with one executable
  order, a configuration that passes the preliminary checks of \<open>execCmd\<close>, and a world in
  which every simulation reverts.
\<close>

definition USDC :: address where
  "USDC = ''0xaf88d065e77c8cC2239327C5EDb3A432268e5831''"

definition WETH :: address where
  "WETH = ''0x82aF49447D8a07e3bd95BD0d56f35241523fBab1''"

definition exampleCandidate :: Candidate where
  "exampleCandidate =
     \<lparr> c_candidateId = ''42161|0xaa|aave'',
       c_borrower = ''0xaa'',
       c_healthFactor = 0.95,
       c_proximity = 1 / 0.95,
       c_totalCollateralUSD = 550,
       c_totalDebtUSD = 500,
       c_bestDebt = Some zeroAddress,
       c_bestCollateral = Some zeroAddress,
       c_bestDebtAmount = None,
       c_status = exec_ready,
       c_ts = 1700000000000 \<rparr>"

definition exampleAssets :: UserAssets where
  "exampleAssets = \<lparr> ua_bestDebt = USDC, ua_bestCollateral = WETH, ua_bestDebtAmount = 500000001 \<rparr>"

definition examplePlanEnv :: PlanEnv where
  "examplePlanEnv = \<lparr> p_now = 1700000000500, p_referralCode = 0, p_maxTxGasPriceWei = 0 \<rparr>"

definition exampleAccount :: AccountData where
  "exampleAccount =
     \<lparr> a_totalCollateralBase = 55000000000, a_totalDebtBase = 50000000000,
       a_availableBorrowsBase = 0, a_currentLiquidationThreshold = 8250, a_ltv = 8000,
       a_healthFactor = 950000000000000000 \<rparr>"

definition exampleSnapshot :: UserHealth where
  "exampleSnapshot =
     \<lparr> user = ''0xaa'', healthFactor = 0.95, totalCollateralUSD = 550, totalDebtUSD = 500,
       bestDebt = Some zeroAddress, bestCollateral = Some zeroAddress, bestDebtAmount = None \<rparr>"

definition exampleReads :: "address \<Rightarrow> address \<Rightarrow> ReserveReads option" where
  "exampleReads u reserve =
     (if reserve = USDC
      then Some \<lparr> r_price = 100000000, r_aTokenBalance = 0, r_debtBalance = 500000001 \<rparr>
      else if reserve = WETH
      then Some \<lparr> r_price = 300000000000, r_aTokenBalance = 183333333333333333,
                    r_debtBalance = 0 \<rparr>
      else Some \<lparr> r_price = 100000000, r_aTokenBalance = 0, r_debtBalance = 0 \<rparr>)"

definition exampleOrder :: ExecutorOrder where
  "exampleOrder =
     \<lparr> o_debtAsset = USDC, o_collateralAsset = WETH, o_borrower = ''0xaa'',
       o_repayAmount = 250000000, o_uniPath = encodeV3Path [WETH, USDC] [3000],
       o_amountOutMin = 0, o_minProfit = 0, o_deadline = 1700000301,
       o_maxTxGasPrice = 0, o_referralCode = 0, o_nonce = 1700000001001 \<rparr>"

definition examplePlan :: TxPlan where
  "examplePlan =
     \<lparr> tp_items =
         [\<lparr> i_ts = 1700000000500, i_candidateId = ''42161|0xaa|aave'', i_borrower = ''0xaa'',
            i_netProfitUsd = 0, i_proximity = 1 / 0.95, i_action = EXEC, i_pass = True,
            i_note = EXEC_READY_ORDER_BUILT, i_order = Some exampleOrder \<rparr>],
       tp_generatedAt = Some 1700000000500,
       tp_execBuilt = 1 \<rparr>"

definition exampleConfig :: ExecConfig where
  "exampleConfig =
     \<lparr> cfg_execEnabled = True, cfg_hasPrivateKey = True, cfg_executorAddrValid = True,
       cfg_orderDeadlineSec = 180, cfg_maxTxGasPriceWei = 1000000000 \<rparr>"

text \<open>A world in which every simulation reverts with "position is healthy".\<close>

definition exampleWorld :: ExecWorld where
  "exampleWorld =
     \<lparr> w_gasPrice = (\<lambda>tried. Some 100000000),
       w_simulate = (\<lambda>order. Inl ''Position is healthy''),
       w_broadcast = (\<lambda>order fee. Inr ''0xhash''),
       w_writeExec = None,
       w_nonceClock = (\<lambda>tried. 1700000060000),
       w_blacklistClock = (\<lambda>tried. 1700000061000),
       w_blacklistWriteOk = True \<rparr>"

section \<open>Blacklist: expiry and lazy pruning\<close>

lemma toLowerCase_lower_hex [simp]:
  "toLowerCase ''0xaa'' = ''0xaa''" "toLowerCase ''0xAA'' = ''0xaa''"
  "toLowerCase ''0xbb'' = ''0xbb''" "toLowerCase ''0xBB'' = ''0xbb''"
  "toLowerCase ''0xcc'' = ''0xcc''" "toLowerCase ''0xCC'' = ''0xcc''"
  by (simp_all add: toLowerCase_def lowerChar_def)

text \<open>
  C9, as stated, fails at the boundary: an entry whose expiry equals the current time is
  still reported as blacklisted (\<open>Date.now() > expiry\<close> is false) and is not pruned by the
  next write (\<open>bl[k] < now\<close> is false).
\<close>

theorem C9_expiry_equal_now_counterexample:
  "[''0xaa'' \<mapsto> (1000::int)] (toLowerCase ''0xAA'') = Some 1000
   \<and> (1000::int) \<le> 1000
   \<and> isBlacklisted 1000 [''0xaa'' \<mapsto> 1000] ''0xAA''
   \<and> loadBlacklist (addToBlacklist 1000 True (Some [''0xaa'' \<mapsto> 1000]) ''0xBB'' defaultDurationMs)
         ''0xaa'' = Some 1000"
  by (simp add: isBlacklisted_def addToBlacklist_def cleanupExpired_def loadBlacklist_def
      saveBlacklist_def defaultDurationMs_def)

text \<open>
  C9 (amended): for every blacklist store and every entry whose expiry is strictly less
  than the current time, the membership check reports the account as not blacklisted and
  the next successful write \<open>addToBlacklist\<close> removes the entry. An entry whose expiry is
  equal to or later than the current time is still reported as blacklisted and is kept by
  that write. The write adds nothing but the new entry, and the newly added entry is
  active. (The key being added is overwritten with the new expiry.)
\<close>

theorem C9_expired_entry_inert_and_pruned:
  assumes "loadBlacklist file k = Some e" and "0 < now" and "0 \<le> durationMs"
  shows "(e < now \<longrightarrow>
            (toLowerCase a = k \<longrightarrow> \<not> isBlacklisted now (loadBlacklist file) a)
            \<and> (k \<noteq> toLowerCase addr \<longrightarrow>
                 loadBlacklist (addToBlacklist now True file addr durationMs) k = None))
       \<and> (now \<le> e \<longrightarrow>
            (toLowerCase a = k \<longrightarrow> isBlacklisted now (loadBlacklist file) a)
            \<and> (k \<noteq> toLowerCase addr \<longrightarrow>
                 loadBlacklist (addToBlacklist now True file addr durationMs) k = Some e))
       \<and> (loadBlacklist file k' = None \<and> k' \<noteq> toLowerCase addr \<longrightarrow>
            loadBlacklist (addToBlacklist now True file addr durationMs) k' = None)
       \<and> loadBlacklist (addToBlacklist now True file addr durationMs) (toLowerCase addr)
            = Some (now + durationMs)
       \<and> isBlacklisted now (loadBlacklist (addToBlacklist now True file addr durationMs)) addr"
proof -
  have after: "loadBlacklist (addToBlacklist now True file addr durationMs)
                 = (cleanupExpired now (loadBlacklist file))(toLowerCase addr \<mapsto> now + durationMs)"
    by (simp add: addToBlacklist_def saveBlacklist_def loadBlacklist_def Let_def)
  have inert: "\<not> isBlacklisted now (loadBlacklist file) a" if "e < now" "toLowerCase a = k"
    using that assms(1) by (simp add: isBlacklisted_def)
  have active: "isBlacklisted now (loadBlacklist file) a" if "now \<le> e" "toLowerCase a = k"
    using that assms(1,2) by (simp add: isBlacklisted_def)
  have pruned: "loadBlacklist (addToBlacklist now True file addr durationMs) k = None"
    if "e < now" "k \<noteq> toLowerCase addr"
    using that assms(1) by (simp add: after cleanupExpired_def)
  have kept: "loadBlacklist (addToBlacklist now True file addr durationMs) k = Some e"
    if "now \<le> e" "k \<noteq> toLowerCase addr"
    using that assms(1) by (simp add: after cleanupExpired_def)
  have absent: "loadBlacklist (addToBlacklist now True file addr durationMs) k' = None"
    if "loadBlacklist file k' = None" "k' \<noteq> toLowerCase addr"
    using that by (simp add: after cleanupExpired_def)
  have new: "loadBlacklist (addToBlacklist now True file addr durationMs) (toLowerCase addr)
               = Some (now + durationMs)"
    by (simp add: after)
  have newActive:
    "isBlacklisted now (loadBlacklist (addToBlacklist now True file addr durationMs)) addr"
    using assms(2,3) by (simp add: after isBlacklisted_def)
  from inert active pruned kept absent new newActive show ?thesis by blast
qed

theorem C9_expired_entry_inert_and_pruned_witness:
  "loadBlacklist (Some [''0xaa'' \<mapsto> 500, ''0xcc'' \<mapsto> 1000]) ''0xaa'' = Some 500
   \<and> loadBlacklist (Some [''0xaa'' \<mapsto> 500, ''0xcc'' \<mapsto> 1000]) ''0xcc'' = Some 1000
   \<and> loadBlacklist (Some [''0xaa'' \<mapsto> 500, ''0xcc'' \<mapsto> 1000]) ''0xdd'' = None
   \<and> (500::int) < 1000 \<and> (1000::int) \<le> 1000 \<and> (0::int) < 1000 \<and> 0 \<le> defaultDurationMs
   \<and> toLowerCase ''0xAA'' = ''0xaa'' \<and> toLowerCase ''0xCC'' = ''0xcc''
   \<and> ''0xaa'' \<noteq> toLowerCase ''0xBB'' \<and> ''0xcc'' \<noteq> toLowerCase ''0xBB''
   \<and> ''0xdd'' \<noteq> toLowerCase ''0xBB''
   \<and> \<not> isBlacklisted 1000 (loadBlacklist (Some [''0xaa'' \<mapsto> 500, ''0xcc'' \<mapsto> 1000])) ''0xAA''
   \<and> isBlacklisted 1000 (loadBlacklist (Some [''0xaa'' \<mapsto> 500, ''0xcc'' \<mapsto> 1000])) ''0xCC''
   \<and> loadBlacklist (addToBlacklist 1000 True (Some [''0xaa'' \<mapsto> 500, ''0xcc'' \<mapsto> 1000])
        ''0xBB'' defaultDurationMs) ''0xaa'' = None
   \<and> loadBlacklist (addToBlacklist 1000 True (Some [''0xaa'' \<mapsto> 500, ''0xcc'' \<mapsto> 1000])
        ''0xBB'' defaultDurationMs) ''0xcc'' = Some 1000
   \<and> loadBlacklist (addToBlacklist 1000 True (Some [''0xaa'' \<mapsto> 500, ''0xcc'' \<mapsto> 1000])
        ''0xBB'' defaultDurationMs) ''0xdd'' = None
   \<and> loadBlacklist (addToBlacklist 1000 True (Some [''0xaa'' \<mapsto> 500, ''0xcc'' \<mapsto> 1000])
        ''0xBB'' defaultDurationMs) ''0xbb'' = Some 3601000
   \<and> isBlacklisted 1000
        (loadBlacklist (addToBlacklist 1000 True (Some [''0xaa'' \<mapsto> 500, ''0xcc'' \<mapsto> 1000])
           ''0xBB'' defaultDurationMs))
        ''0xBB''"
  using
    C9_expired_entry_inert_and_pruned
      [of "Some [''0xaa'' \<mapsto> 500, ''0xcc'' \<mapsto> 1000]" "''0xaa''" 500 1000 defaultDurationMs
          "''0xAA''" "''0xBB''" "''0xdd''"]
    C9_expired_entry_inert_and_pruned
      [of "Some [''0xaa'' \<mapsto> 500, ''0xcc'' \<mapsto> 1000]" "''0xcc''" 1000 1000 defaultDurationMs
          "''0xCC''" "''0xBB''" "''0xdd''"]
  by (simp add: loadBlacklist_def defaultDurationMs_def)

section \<open>Candidate classifier\<close>

lemma candidateStatus_below_watch: "candidateStatus hf = below_watch \<longleftrightarrow> 1.1 \<le> hf"
  by (auto simp: candidateStatus_def)

lemma candidateStatus_tier:
  "hf < 1.1 \<Longrightarrow> candidateStatus hf = (if hf < 1 then exec_ready else watch)"
  by (simp add: candidateStatus_def)

lemma scanCandidate_dropped:
  "1.1 \<le> healthFactor h \<or> totalDebtUSD h < 10 \<Longrightarrow> scanCandidate cid now (Some h) = None"
  by (auto simp: scanCandidate_def Let_def candidateStatus_below_watch)

lemma scanCandidate_emitted:
  assumes "healthFactor h < 1.1" and "10 \<le> totalDebtUSD h"
  shows "\<exists>c. scanCandidate cid now (Some h) = Some c \<and> c_borrower c = user h
           \<and> c_status c = (if healthFactor h < 1 then exec_ready else watch)"
  using assms
  by (simp add: scanCandidate_def Let_def candidateStatus_below_watch candidateStatus_tier)

lemma sentryResult_dropped:
  "1.1 \<le> healthFactor h \<or> (totalCollateralUSD h < 1 \<and> totalDebtUSD h < 1)
     \<or> isBlacklisted now bl (user h)
   \<Longrightarrow> snd (sentryResult cid now bl acc (Some h)) = snd acc"
  by (auto simp: sentryResult_def Let_def candidateStatus_below_watch)

lemma sentryResult_emitted:
  assumes "healthFactor h < 1.1"
    and "\<not> (totalCollateralUSD h < 1 \<and> totalDebtUSD h < 1)"
    and "\<not> isBlacklisted now bl (user h)"
  shows "\<exists>c. snd (sentryResult cid now bl acc (Some h)) = snd acc @ [c] \<and> c_borrower c = user h
           \<and> c_status c = (if healthFactor h < 1 then exec_ready else watch)"
  using assms
  by (auto simp: sentryResult_def Let_def candidateStatus_below_watch candidateStatus_tier)

text \<open>
  C1, as stated, fails: a health factor in \<open>[1.0, 1.1)\<close> does not always give a \<open>watch\<close>
  candidate. The one-shot scan drops a snapshot with less than 10 USD of debt, the sentry
  loop drops one whose collateral and debt are both below 1 USD.
\<close>

theorem C1_watch_tier_dropped_counterexample:
  "(1::real) \<le> 1.05 \<and> (1.05::real) < 1.1
   \<and> scanCandidate ''42161'' 0
        (Some \<lparr> user = ''0xaa'', healthFactor = 1.05, totalCollateralUSD = 6, totalDebtUSD = 5,
                 bestDebt = None, bestCollateral = None, bestDebtAmount = None \<rparr>) = None
   \<and> snd (sentryResult ''42161'' 0 Map.empty ([], [])
        (Some \<lparr> user = ''0xaa'', healthFactor = 1.05, totalCollateralUSD = 0.5,
                 totalDebtUSD = 0.5, bestDebt = None, bestCollateral = None,
                 bestDebtAmount = None \<rparr>)) = []"
  by (simp add: scanCandidate_def sentryResult_def candidateStatus_def Let_def)

text \<open>
  C1 (amended): the classifier is a three-tier mapping on the health factor applied
  before the additional filters. For every health factor \<open>\<ge> 1.1\<close> no candidate is
  emitted. For every health factor below \<open>1.1\<close> whose snapshot passes the additional
  filter (one-shot scan: total debt of at least 10 USD; sentry loop: collateral and debt
  not both below 1 USD, and the account not blacklisted) one candidate is emitted, with
  status \<open>watch\<close> when the health factor is in \<open>[1.0, 1.1)\<close> and \<open>exec_ready\<close> when it
  is below \<open>1.0\<close>.
\<close>

theorem C1_classifier_three_tiers:
  "(1.1 \<le> healthFactor h \<longrightarrow>
      scanCandidate cid now (Some h) = None
      \<and> snd (sentryResult cid now bl acc (Some h)) = snd acc)
   \<and> (healthFactor h < 1.1 \<and> 10 \<le> totalDebtUSD h \<longrightarrow>
      (\<exists>c. scanCandidate cid now (Some h) = Some c \<and> c_borrower c = user h
           \<and> c_status c = (if healthFactor h < 1 then exec_ready else watch)))
   \<and> (healthFactor h < 1.1 \<and> \<not> (totalCollateralUSD h < 1 \<and> totalDebtUSD h < 1)
        \<and> \<not> isBlacklisted now bl (user h) \<longrightarrow>
      (\<exists>c. snd (sentryResult cid now bl acc (Some h)) = snd acc @ [c] \<and> c_borrower c = user h
           \<and> c_status c = (if healthFactor h < 1 then exec_ready else watch)))"
  using scanCandidate_dropped [of h cid now] sentryResult_dropped [of h now bl cid acc]
    scanCandidate_emitted [of h cid now] sentryResult_emitted [of h now bl cid acc]
  by blast

theorem C1_classifier_three_tiers_witness:
  "(1.1::real) \<le> 2
   \<and> scanCandidate ''42161'' 0
        (Some \<lparr> user = ''0xaa'', healthFactor = 2, totalCollateralUSD = 1000, totalDebtUSD = 500,
                 bestDebt = None, bestCollateral = None, bestDebtAmount = None \<rparr>) = None
   \<and> snd (sentryResult ''42161'' 0 Map.empty ([], [])
        (Some \<lparr> user = ''0xaa'', healthFactor = 2, totalCollateralUSD = 1000, totalDebtUSD = 500,
                 bestDebt = None, bestCollateral = None, bestDebtAmount = None \<rparr>)) = []
   \<and> (1.05::real) < 1.1 \<and> (10::real) \<le> 500 \<and> \<not> ((550::real) < 1 \<and> (500::real) < 1)
   \<and> \<not> isBlacklisted 0 Map.empty ''0xaa''
   \<and> (\<exists>c. scanCandidate ''42161'' 0
        (Some \<lparr> user = ''0xaa'', healthFactor = 1.05, totalCollateralUSD = 550,
                 totalDebtUSD = 500, bestDebt = None, bestCollateral = None,
                 bestDebtAmount = None \<rparr>) = Some c
          \<and> c_borrower c = ''0xaa'' \<and> c_status c = watch)
   \<and> (\<exists>c. snd (sentryResult ''42161'' 0 Map.empty ([], [])
        (Some \<lparr> user = ''0xaa'', healthFactor = 1.05, totalCollateralUSD = 550,
                 totalDebtUSD = 500, bestDebt = None, bestCollateral = None,
                 bestDebtAmount = None \<rparr>)) = [c]
          \<and> c_borrower c = ''0xaa'' \<and> c_status c = watch)
   \<and> (0.95::real) < 1.1
   \<and> (\<exists>c. scanCandidate ''42161'' 0
        (Some \<lparr> user = ''0xaa'', healthFactor = 0.95, totalCollateralUSD = 550,
                 totalDebtUSD = 500, bestDebt = None, bestCollateral = None,
                 bestDebtAmount = None \<rparr>) = Some c
          \<and> c_borrower c = ''0xaa'' \<and> c_status c = exec_ready)
   \<and> (\<exists>c. snd (sentryResult ''42161'' 0 Map.empty ([], [])
        (Some \<lparr> user = ''0xaa'', healthFactor = 0.95, totalCollateralUSD = 550,
                 totalDebtUSD = 500, bestDebt = None, bestCollateral = None,
                 bestDebtAmount = None \<rparr>)) = [c]
          \<and> c_borrower c = ''0xaa'' \<and> c_status c = exec_ready)"
  using
    C1_classifier_three_tiers
      [of "\<lparr> user = ''0xaa'', healthFactor = 2, totalCollateralUSD = 1000, totalDebtUSD = 500,
             bestDebt = None, bestCollateral = None, bestDebtAmount = None \<rparr>"
          "''42161''" 0 Map.empty "([], [])"]
    C1_classifier_three_tiers
      [of "\<lparr> user = ''0xaa'', healthFactor = 1.05, totalCollateralUSD = 550, totalDebtUSD = 500,
             bestDebt = None, bestCollateral = None, bestDebtAmount = None \<rparr>"
          "''42161''" 0 Map.empty "([], [])"]
    C1_classifier_three_tiers
      [of "\<lparr> user = ''0xaa'', healthFactor = 0.95, totalCollateralUSD = 550, totalDebtUSD = 500,
             bestDebt = None, bestCollateral = None, bestDebtAmount = None \<rparr>"
          "''42161''" 0 Map.empty "([], [])"]
  by (simp add: isBlacklisted_def)

text \<open>
  C6, as stated, fails in the sentry loop: its dust filter drops a snapshot only when
  collateral and debt are both below 1 USD, so an \<open>exec_ready\<close> snapshot with 5 USD of
  debt and 6 USD of collateral yields a candidate.
\<close>

theorem C6_sentry_keeps_small_debt_counterexample:
  "(5::real) < 10 \<and> (0.95::real) < 1
   \<and> (\<exists>c. snd (sentryResult ''42161'' 0 Map.empty ([], [])
         (Some \<lparr> user = ''0xaa'', healthFactor = 0.95, totalCollateralUSD = 6, totalDebtUSD = 5,
                  bestDebt = None, bestCollateral = None, bestDebtAmount = None \<rparr>)) = [c]
        \<and> c_borrower c = ''0xaa'' \<and> c_status c = exec_ready \<and> c_totalDebtUSD c = 5)"
  by (simp add: sentryResult_def candidateStatus_def Let_def isBlacklisted_def)

text \<open>
  C6 (amended): in the one-shot scan every health snapshot whose total debt is below the
  10 USD dust floor yields no candidate, whatever its health factor; in the sentry loop
  the dust filter drops, whatever the health factor, every snapshot whose total
  collateral and total debt are both below 1 USD.
\<close>

theorem C6_dust_filter:
  "(totalDebtUSD h < 10 \<longrightarrow> scanCandidate cid now (Some h) = None)
   \<and> (totalCollateralUSD h < 1 \<and> totalDebtUSD h < 1 \<longrightarrow>
        snd (sentryResult cid now bl acc (Some h)) = snd acc)"
  using scanCandidate_dropped [of h cid now] sentryResult_dropped [of h now bl cid acc]
  by blast

theorem C6_dust_filter_witness:
  "(5::real) < 10
   \<and> scanCandidate ''42161'' 0
        (Some \<lparr> user = ''0xaa'', healthFactor = 0.95, totalCollateralUSD = 6, totalDebtUSD = 5,
                 bestDebt = None, bestCollateral = None, bestDebtAmount = None \<rparr>) = None
   \<and> (0.5::real) < 1 \<and> (0.4::real) < 1
   \<and> snd (sentryResult ''42161'' 0 Map.empty ([], [])
        (Some \<lparr> user = ''0xaa'', healthFactor = 0.95, totalCollateralUSD = 0.5,
                 totalDebtUSD = 0.4, bestDebt = None, bestCollateral = None,
                 bestDebtAmount = None \<rparr>)) = []"
  using
    C6_dust_filter
      [of "\<lparr> user = ''0xaa'', healthFactor = 0.95, totalCollateralUSD = 6, totalDebtUSD = 5,
             bestDebt = None, bestCollateral = None, bestDebtAmount = None \<rparr>" "''42161''" 0]
    C6_dust_filter
      [of "\<lparr> user = ''0xaa'', healthFactor = 0.95, totalCollateralUSD = 0.5, totalDebtUSD = 0.4,
             bestDebt = None, bestCollateral = None, bestDebtAmount = None \<rparr>"
          "''42161''" 0 Map.empty "([], [])"]
  by simp

section \<open>Sentry scheduler\<close>

lemma set_setAdd [simp]: "set (setAdd x xs) = insert x (set xs)"
  by (auto simp: setAdd_def)

lemma set_setDelete [simp]: "set (setDelete x xs) = set xs - {x}"
  by (simp add: setDelete_def)

lemma set_uniq [simp]: "set (uniq xs) = set xs"
  by (induction xs rule: uniq.induct) auto

lemma distinct_uniq: "distinct (uniq xs)"
  by (induction xs rule: uniq.induct) auto

lemma somes_append [simp]: "somes (xs @ ys) = somes xs @ somes ys"
  by (induction xs rule: somes.induct) auto

lemma set_somes [simp]: "x \<in> set (somes xs) \<longleftrightarrow> Some x \<in> set xs"
  by (induction xs rule: somes.induct) auto

lemma sentryResult_None [simp]: "sentryResult cid now bl acc None = acc"
  by (simp add: sentryResult_def)

lemma sentryResult_member_self:
  "user h \<in> set (fst (sentryResult cid now bl acc (Some h))) \<longleftrightarrow>
     (0 < healthFactor h \<and> healthFactor h < 1.5
      \<and> \<not> (healthFactor h < 1.1
            \<and> ((totalCollateralUSD h < 1 \<and> totalDebtUSD h < 1) \<or> isBlacklisted now bl (user h))))"
  by (auto simp: sentryResult_def Let_def candidateStatus_def)

lemma sentryResult_member_other:
  "u \<noteq> user h \<Longrightarrow>
     u \<in> set (fst (sentryResult cid now bl acc (Some h))) \<longleftrightarrow> u \<in> set (fst acc)"
  by (auto simp: sentryResult_def Let_def)

lemma sentryResults_member:
  assumes "distinct (map user (somes results))" and "Some h \<in> set results"
  shows "user h \<in> set (fst (sentryResults cid now bl ps results)) \<longleftrightarrow>
     (0 < healthFactor h \<and> healthFactor h < 1.5
      \<and> \<not> (healthFactor h < 1.1
            \<and> ((totalCollateralUSD h < 1 \<and> totalDebtUSD h < 1) \<or> isBlacklisted now bl (user h))))"
  using assms unfolding sentryResults_def
proof (induction results rule: rev_induct)
  case Nil
  then show ?case by simp
next
  case (snoc r rs)
  show ?case
  proof (cases r)
    case None
    with snoc show ?thesis by simp
  next
    case (Some h')
    show ?thesis
    proof (cases "h' = h")
      case True
      with Some show ?thesis by (simp add: sentryResult_member_self)
    next
      case False
      with snoc.prems Some have in_rs: "Some h \<in> set rs" by auto
      from in_rs have "user h \<in> user ` set (somes rs)" by simp
      with snoc.prems Some have "user h \<noteq> user h'" by auto
      moreover from snoc.prems have "distinct (map user (somes rs))"
        by simp
      ultimately show ?thesis using snoc.IH in_rs Some
        by (simp add: sentryResult_member_other)
    qed
  qed
qed

lemma sentryResult_candidates:
  "snd (sentryResult cid now bl acc r) = snd acc \<or>
   (\<exists>h c. r = Some h \<and> snd (sentryResult cid now bl acc r) = snd acc @ [c]
      \<and> c_borrower c = user h \<and> \<not> isBlacklisted now bl (user h))"
  by (cases r) (auto simp: sentryResult_def Let_def)

lemma foldl_sentryResult_not_blacklisted:
  "\<forall>c \<in> set (snd acc). \<not> isBlacklisted now bl (c_borrower c) \<Longrightarrow>
   \<forall>c \<in> set (snd (foldl (sentryResult cid now bl) acc results)).
      \<not> isBlacklisted now bl (c_borrower c)"
proof (induction results rule: rev_induct)
  case Nil
  then show ?case by simp
next
  case (snoc r rs)
  then show ?case
    using sentryResult_candidates [of cid now bl "foldl (sentryResult cid now bl) acc rs" r]
    by auto
qed

lemma sentryResults_not_blacklisted:
  "c \<in> set (snd (sentryResults cid now bl ps results)) \<Longrightarrow> \<not> isBlacklisted now bl (c_borrower c)"
  using foldl_sentryResult_not_blacklisted [of "(ps, [])" now bl cid results]
  by (simp add: sentryResults_def)

lemma isBlacklisted_earlier:
  "isBlacklisted t' bl u \<Longrightarrow> t \<le> t' \<Longrightarrow> isBlacklisted t bl u"
  by (auto simp: isBlacklisted_def split: option.splits if_splits)

lemma usersCheck_blacklisted:
  "isBlacklisted now bl u \<Longrightarrow>
   u \<in> set (usersCheck now bl ps cur db) \<longleftrightarrow> u \<in> set (bgChunk cur db)"
  by (auto simp: usersCheck_def displayPriority_def)

lemma sentryCycle_checked:
  "fst (snd (sentryCycle cid tFilter tCheck blFile healthBatch fresh s)) =
     (if length (dbUsers s) > 0
      then usersCheck tFilter (loadBlacklist blFile) (prioritySet s) (cursor s) (dbUsers s)
      else [])"
  by (simp add: sentryCycle_def Let_def split_def)

lemma sentryCycle_candidates:
  "snd (snd (sentryCycle cid tFilter tCheck blFile healthBatch fresh s)) =
     (if length (dbUsers s) > 0
      then snd (sentryResults cid tCheck (loadBlacklist blFile) (prioritySet s)
             (healthBatch (usersCheck tFilter (loadBlacklist blFile) (prioritySet s) (cursor s)
                (dbUsers s))))
      else [])"
  by (simp add: sentryCycle_def Let_def split_def)

lemma sentryCycle_prioritySet:
  "prioritySet (fst (sentryCycle cid tFilter tCheck blFile healthBatch fresh s)) =
     (if length (dbUsers s) > 0
      then fst (sentryResults cid tCheck (loadBlacklist blFile) (prioritySet s)
             (healthBatch (usersCheck tFilter (loadBlacklist blFile) (prioritySet s) (cursor s)
                (dbUsers s))))
      else prioritySet s)"
  by (simp add: sentryCycle_def Let_def split_def split: option.splits)

lemma bgChunk_empty [simp]: "bgChunk cur [] = []"
  by (simp add: bgChunk_def)

text \<open>
  C7, as stated, fails for the background chunk: only the priority lane is filtered, so a
  blacklisted account of the universe is passed to the Health Engine when the rotating
  chunk reaches it.
\<close>

theorem C7_blacklisted_in_background_chunk_counterexample:
  "isBlacklisted 1000 (loadBlacklist (Some [''0xaa'' \<mapsto> 5000])) ''0xaa''
   \<and> fst (snd (sentryCycle ''42161'' 1000 1000 (Some [''0xaa'' \<mapsto> 5000]) (\<lambda>users. []) None
         \<lparr> cursor = 0, cycleCount = 1, prioritySet = [], dbUsers = [''0xaa''] \<rparr>)) = [''0xaa'']"
  by (simp add: sentryCycle_checked usersCheck_def displayPriority_def bgChunk_def resetCursor_def
      CHUNK_SIZE_def isBlacklisted_def loadBlacklist_def)

text \<open>
  C7 (amended): in every sentry cycle, an account with an active blacklist entry is
  filtered out of the priority lane before evaluation: it is among the accounts passed to
  the Health Engine exactly when it lies in the cycle's rotating background chunk of the
  universe, which is not filtered. Such an account is never emitted as a candidate of the
  cycle.
\<close>

theorem C7_blacklisted_not_in_priority_lane:
  assumes "isBlacklisted tCheck (loadBlacklist blFile) u" and "tFilter \<le> tCheck"
  shows "(u \<in> set (fst (snd (sentryCycle cid tFilter tCheck blFile healthBatch fresh s)))
            \<longleftrightarrow> u \<in> set (bgChunk (cursor s) (dbUsers s)))
       \<and> u \<notin> set (displayPriority tFilter (loadBlacklist blFile) (prioritySet s))
       \<and> u \<notin> c_borrower ` set (snd (snd (sentryCycle cid tFilter tCheck blFile healthBatch fresh s)))"
proof -
  from assms have early: "isBlacklisted tFilter (loadBlacklist blFile) u"
    by (rule isBlacklisted_earlier)
  have "u \<in> set (fst (snd (sentryCycle cid tFilter tCheck blFile healthBatch fresh s)))
            \<longleftrightarrow> u \<in> set (bgChunk (cursor s) (dbUsers s))"
    using usersCheck_blacklisted [OF early] by (auto simp: sentryCycle_checked)
  moreover have "u \<notin> set (displayPriority tFilter (loadBlacklist blFile) (prioritySet s))"
    using early by (simp add: displayPriority_def)
  moreover have
    "u \<notin> c_borrower ` set (snd (snd (sentryCycle cid tFilter tCheck blFile healthBatch fresh s)))"
    using assms(1) sentryResults_not_blacklisted
    by (auto simp: sentryCycle_candidates split: if_splits)
  ultimately show ?thesis by blast
qed

theorem C7_blacklisted_not_in_priority_lane_witness:
  "isBlacklisted 1000 (loadBlacklist (Some [''0xaa'' \<mapsto> 5000])) ''0xaa'' \<and> (900::int) \<le> 1000
   \<and> ''0xaa'' \<notin> set (fst (snd (sentryCycle ''42161'' 900 1000 (Some [''0xaa'' \<mapsto> 5000])
         (\<lambda>users. []) None
         \<lparr> cursor = 0, cycleCount = 1, prioritySet = [''0xaa''], dbUsers = [''0xbb''] \<rparr>)))
   \<and> ''0xaa'' \<notin> set (bgChunk 0 [''0xbb''])
   \<and> ''0xaa'' \<notin> set (displayPriority 900 (loadBlacklist (Some [''0xaa'' \<mapsto> 5000])) [''0xaa''])"
  using C7_blacklisted_not_in_priority_lane
    [of 1000 "Some [''0xaa'' \<mapsto> 5000]" "''0xaa''" 900 "''42161''" "\<lambda>users. []" None
        "\<lparr> cursor = 0, cycleCount = 1, prioritySet = [''0xaa''], dbUsers = [''0xbb''] \<rparr>"]
  by (simp add: isBlacklisted_def loadBlacklist_def bgChunk_def resetCursor_def CHUNK_SIZE_def)

lemma healthOfResult_user:
  "fst (healthOfResult nd ra (r, u)) = Some h \<Longrightarrow> user h = u"
  by (auto simp: healthOfResult_def coarseHealth_def getUserHealthDetailed_def Let_def
      split: option.splits if_splits)

lemma batch_users_subset:
  "x \<in> set (map user (somes (map fst (map (healthOfResult nd ra) (zip rs us))))) \<Longrightarrow> x \<in> set us"
proof (induction us arbitrary: rs)
  case Nil
  then show ?case by simp
next
  case (Cons u us)
  show ?case
  proof (cases rs)
    case Nil
    with Cons.prems show ?thesis by simp
  next
    case (Cons r rs')
    show ?thesis
    proof (cases "fst (healthOfResult nd ra (r, u))")
      case None
      with Cons.prems Cons.IH [of rs'] Cons show ?thesis by auto
    next
      case (Some h)
      with Cons.prems Cons.IH [of rs'] Cons healthOfResult_user [OF Some] show ?thesis by auto
    qed
  qed
qed

lemma batch_users_distinct:
  "distinct us \<Longrightarrow>
   distinct (map user (somes (map fst (map (healthOfResult nd ra) (zip rs us)))))"
proof (induction us arbitrary: rs)
  case Nil
  then show ?case by simp
next
  case (Cons u us)
  show ?case
  proof (cases rs)
    case Nil
    then show ?thesis by simp
  next
    case (Cons r rs')
    have tl: "distinct (map user (somes (map fst (map (healthOfResult nd ra) (zip rs' us)))))"
      using Cons.IH Cons.prems by simp
    have notin: "u \<notin> set (map user (somes (map fst (map (healthOfResult nd ra) (zip rs' us)))))"
      using batch_users_subset [of u nd ra rs' us] Cons.prems by auto
    show ?thesis
    proof (cases "fst (healthOfResult nd ra (r, u))")
      case None
      with tl Cons show ?thesis by simp
    next
      case (Some h)
      with healthOfResult_user [OF Some] tl notin Cons show ?thesis by simp
    qed
  qed
qed

lemma somes_all_None: "somes (map (\<lambda>_. None) xs) = []"
  by (induction xs) auto

lemma getUsersHealthBatch_distinct:
  "distinct users \<Longrightarrow>
   distinct (map user (somes (fst (getUsersHealthBatch nd mc ra users))))"
  using batch_users_distinct [of users nd ra]
  by (auto simp: getUsersHealthBatch_def Let_def somes_all_None split: option.splits)

lemma usersCheck_distinct: "distinct (usersCheck now bl ps cur db)"
  by (simp add: usersCheck_def distinct_uniq)

text \<open>
  C8, as stated, fails: an account with a health factor below the warning threshold is
  not always (re-)inserted. A health factor of \<open>0\<close> evicts the account, and an account
  below the 1.1 watch ceiling is removed again when it is dust or blacklisted.
\<close>

theorem C8_below_threshold_evicted_counterexample:
  "(0::real) < 1.5 \<and> (0.9::real) < 1.5
   \<and> prioritySet (fst (sentryCycle ''42161'' 1000 1000 None
        (\<lambda>users. [Some \<lparr> user = ''0xaa'', healthFactor = 0, totalCollateralUSD = 0,
                            totalDebtUSD = 500, bestDebt = None, bestCollateral = None,
                            bestDebtAmount = None \<rparr>]) None
        \<lparr> cursor = 0, cycleCount = 1, prioritySet = [''0xaa''], dbUsers = [''0xaa''] \<rparr>)) = []
   \<and> prioritySet (fst (sentryCycle ''42161'' 1000 1000 None
        (\<lambda>users. [Some \<lparr> user = ''0xaa'', healthFactor = 0.9, totalCollateralUSD = 0.5,
                            totalDebtUSD = 0.5, bestDebt = None, bestCollateral = None,
                            bestDebtAmount = None \<rparr>]) None
        \<lparr> cursor = 0, cycleCount = 1, prioritySet = [''0xaa''], dbUsers = [''0xaa''] \<rparr>)) = []"
  by (simp add: sentryCycle_prioritySet sentryResults_def sentryResult_def candidateStatus_def
      Let_def setAdd_def setDelete_def)

text \<open>
  C8 (amended): after each cycle's evaluation, an account that received a health result
  is in the priority set exactly when its health factor is above \<open>0\<close> and below the 1.5
  warning threshold and it was not cleaned up, that is, it is not an account below the 1.1
  watch ceiling that is dust (collateral and debt both below 1 USD) or blacklisted. So a
  health factor of at least 1.5 (or of \<open>0\<close>) evicts the account, and a health factor in
  \<open>[1.1, 1.5)\<close> (re-)inserts it. The health results of a cycle name each account once.
\<close>

theorem C8_priority_set_after_evaluation:
  assumes "dbUsers s \<noteq> []"
    and "results = fst (getUsersHealthBatch nd multicall readAccount
                     (usersCheck tFilter (loadBlacklist blFile) (prioritySet s) (cursor s)
                        (dbUsers s)))"
    and "Some h \<in> set results"
  shows
    "user h \<in> set (prioritySet (fst (sentryCycle cid tFilter tCheck blFile
                     (\<lambda>users. fst (getUsersHealthBatch nd multicall readAccount users)) fresh s)))
     \<longleftrightarrow>
     (0 < healthFactor h \<and> healthFactor h < 1.5
      \<and> \<not> (healthFactor h < 1.1
            \<and> ((totalCollateralUSD h < 1 \<and> totalDebtUSD h < 1)
                \<or> isBlacklisted tCheck (loadBlacklist blFile) (user h))))"
proof -
  have "distinct (map user (somes results))"
    unfolding assms(2) by (rule getUsersHealthBatch_distinct) (rule usersCheck_distinct)
  then show ?thesis
    using assms sentryResults_member [of results h cid tCheck "loadBlacklist blFile" "prioritySet s"]
    by (simp add: sentryCycle_prioritySet)
qed

theorem C8_priority_set_after_evaluation_witness:
  "dbUsers \<lparr> cursor = 0, cycleCount = 1, prioritySet = [], dbUsers = [''0xaa''] \<rparr> \<noteq> []
   \<and> Some (coarseHealth exactDiv ''0xaa''
          \<lparr> a_totalCollateralBase = 100000000000, a_totalDebtBase = 50000000000,
            a_availableBorrowsBase = 0, a_currentLiquidationThreshold = 8000, a_ltv = 7500,
            a_healthFactor = 1300000000000000000 \<rparr>)
       \<in> set (fst (getUsersHealthBatch exactDiv
            (\<lambda>users. Some [Some \<lparr> a_totalCollateralBase = 100000000000,
                a_totalDebtBase = 50000000000, a_availableBorrowsBase = 0,
                a_currentLiquidationThreshold = 8000, a_ltv = 7500,
                a_healthFactor = 1300000000000000000 \<rparr>])
            (\<lambda>u. None)
            (usersCheck 1000 (loadBlacklist None) [] 0 [''0xaa''])))
   \<and> ''0xaa'' \<in> set (prioritySet (fst (sentryCycle ''42161'' 1000 1000 None
         (\<lambda>users. fst (getUsersHealthBatch exactDiv
            (\<lambda>users. Some [Some \<lparr> a_totalCollateralBase = 100000000000,
                a_totalDebtBase = 50000000000, a_availableBorrowsBase = 0,
                a_currentLiquidationThreshold = 8000, a_ltv = 7500,
                a_healthFactor = 1300000000000000000 \<rparr>])
            (\<lambda>u. None) users))
         None \<lparr> cursor = 0, cycleCount = 1, prioritySet = [], dbUsers = [''0xaa''] \<rparr>)))"
  using C8_priority_set_after_evaluation
    [of "\<lparr> cursor = 0, cycleCount = 1, prioritySet = [], dbUsers = [''0xaa''] \<rparr>"
        "fst (getUsersHealthBatch exactDiv
            (\<lambda>users. Some [Some \<lparr> a_totalCollateralBase = 100000000000,
                a_totalDebtBase = 50000000000, a_availableBorrowsBase = 0,
                a_currentLiquidationThreshold = 8000, a_ltv = 7500,
                a_healthFactor = 1300000000000000000 \<rparr>])
            (\<lambda>u. None)
            (usersCheck 1000 (loadBlacklist None) [] 0 [''0xaa'']))"
        exactDiv
        "\<lambda>users. Some [Some \<lparr> a_totalCollateralBase = 100000000000,
                a_totalDebtBase = 50000000000, a_availableBorrowsBase = 0,
                a_currentLiquidationThreshold = 8000, a_ltv = 7500,
                a_healthFactor = 1300000000000000000 \<rparr>]"
        "\<lambda>u. None" 1000 None
        "coarseHealth exactDiv ''0xaa''
          \<lparr> a_totalCollateralBase = 100000000000, a_totalDebtBase = 50000000000,
            a_availableBorrowsBase = 0, a_currentLiquidationThreshold = 8000, a_ltv = 7500,
            a_healthFactor = 1300000000000000000 \<rparr>"
        "''42161''" 1000 None]
  by (simp add: usersCheck_def displayPriority_def bgChunk_def resetCursor_def CHUNK_SIZE_def
      getUsersHealthBatch_def healthOfResult_def coarseHealth_def exactDiv_def loadBlacklist_def
      Let_def)

section \<open>Sync pointers\<close>

lemma syncWindow_backfill:
  "n < 50000 \<Longrightarrow> syncWindow l d c n =
     (let d1 = (if d = 0 then c else d) in
      ((if d1 - 10001 < 10000000 then d1 - 1001 else d1 - 10001), d1 - 1, True))"
  by (simp add: syncWindow_def MAX_WINDOW_def Let_def)

lemma syncWindow_forward:
  "\<not> n < 50000 \<Longrightarrow> syncWindow l d c n =
     (let f = (if l = 0 then c - 10000 else l + 1) in
      if f < c - 50000 then (c - 10000, c, False)
      else (f, (if f + 10000 > c then c else f + 10000), False))"
  by (simp add: syncWindow_def MAX_WINDOW_def Let_def)

lemma syncStep_last_mono: "lastScanned files \<le> lastScanned (syncStep files cur n ok)"
proof (cases "n < 50000")
  case True
  then show ?thesis
    by (simp add: syncStep_def syncWindow_backfill lastScanned_def Let_def)
next
  case False
  then show ?thesis
    by (cases "lastBlock files")
       (simp_all add: syncStep_def syncWindow_forward lastScanned_def Let_def)
qed

lemma scanCycle_last_mono: "lastScanned files \<le> lastScanned (scanCycle files i)"
  using syncStep_last_mono by (simp add: scanCycle_def minerStep_def)

lemma scanCycles_last_mono: "lastScanned files \<le> lastScanned (scanCycles files inputs)"
proof (induction inputs arbitrary: files)
  case Nil
  then show ?case by (simp add: scanCycles_def)
next
  case (Cons i rest)
  have "lastScanned files \<le> lastScanned (scanCycle files i)" by (rule scanCycle_last_mono)
  also have "\<dots> \<le> lastScanned (scanCycles (scanCycle files i) rest)" by (rule Cons.IH)
  finally show ?case by (simp add: scanCycles_def)
qed

lemma syncStep_deep:
  assumes "deepBlock files = Some d" and "d \<noteq> 0"
  shows "deepBlock (syncStep files cur n ok) = Some d
   \<or> deepBlock (syncStep files cur n ok) = Some (d - 10001)
   \<or> deepBlock (syncStep files cur n ok) = Some (d - 1001)"
proof (cases "n < 50000")
  case True
  with assms show ?thesis
    by (simp add: syncStep_def syncWindow_backfill Let_def)
next
  case False
  with assms show ?thesis
    by (simp add: syncStep_def syncWindow_forward Let_def)
qed

lemma backfill_pointer_not_increasing:
  assumes "deepBlock files = Some d" and "d \<noteq> 0"
  shows "\<exists>d'. deepBlock (scanCycle files i) = Some d' \<and> d' \<le> d"
  using syncStep_deep [OF assms, of "in_currentBlock i" "in_nUsers i" "in_ok i"] assms
  by (auto simp: scanCycle_def minerStep_def)

text \<open>
  A stored \<open>deepBlock\<close> of \<open>0\<close> is read as "unset" (\<open>if (deepHead === 0n) deepHead =
  currentBlock\<close>): the backfill restarts just below the chain tip.
\<close>

lemma backfill_restarts_from_stored_zero:
  "deepBlock (scanCycles \<lparr> lastBlock = None, deepBlock = Some 0 \<rparr>
      [\<lparr> in_mode = ''mining'', in_currentBlock = 200000000, in_nUsers = 0, in_ok = True \<rparr>])
     = Some 199989999"
  by (simp add: scanCycles_def scanCycle_def minerStep_def syncStep_def syncWindow_def
      MAX_WINDOW_def)

text \<open>
  The guard \<open>if (fromBlock < 10000000n) fromBlock = toBlock - 1000n\<close> shortens the window
  and does not clamp: from every stored pointer below \<open>10010001\<close> (other than \<open>0\<close>) a
  successful backfill cycle writes the pointer lowered by 1001, whatever the floor.
\<close>

lemma backfill_step_near_floor:
  assumes "deepBlock files = Some d" and "d \<noteq> 0" and "d < 10010001"
    and "in_mode i \<noteq> ''sentry''" and "in_nUsers i < 50000" and "in_ok i"
  shows "deepBlock (scanCycle files i) = Some (d - 1001)"
  using assms
  by (simp add: scanCycle_def minerStep_def syncStep_def syncWindow_backfill Let_def)

text \<open>
  C4: the claim says that the backfill pointer (\<open>deepBlock\<close>) never drops below the
  minimum-block floor, and the code says so too (\<open>// Safety base\<close>, \<open>// Don't go to
  genesis\<close>), but the code does not do it. From a stored \<open>deepBlock\<close> of \<open>10000500\<close> one
  backfill cycle writes \<open>9999499\<close>, below the floor of \<open>10000000\<close>, and the next one
  writes \<open>9998498\<close>. (The forward pointer does behave as claimed: see
  \<open>scanCycles_last_mono\<close>.)
\<close>

theorem C4_backfill_pointer_drops_below_floor:
  "deepBlock (scanCycles \<lparr> lastBlock = None, deepBlock = Some 10000500 \<rparr>
      [\<lparr> in_mode = ''mining'', in_currentBlock = 200000000, in_nUsers = 0, in_ok = True \<rparr>])
     = Some 9999499
   \<and> (9999499::int) < 10000000
   \<and> deepBlock (scanCycles \<lparr> lastBlock = None, deepBlock = Some 10000500 \<rparr>
      [\<lparr> in_mode = ''mining'', in_currentBlock = 200000000, in_nUsers = 0, in_ok = True \<rparr>,
       \<lparr> in_mode = ''mining'', in_currentBlock = 200000100, in_nUsers = 12, in_ok = True \<rparr>])
     = Some 9998498"
  by (simp add: scanCycles_def scanCycle_def minerStep_def syncStep_def syncWindow_def
      MAX_WINDOW_def)

section \<open>Health Engine and best asset pair\<close>

lemma healthOfResult_detailed:
  "nd (a_healthFactor d) 18 < 1.1 \<Longrightarrow>
   healthOfResult nd readAccount (Some d, u) = (getUserHealthDetailed nd readAccount u, [u])"
  by (simp add: healthOfResult_def Let_def)

lemma getUserHealthDetailed_placeholders:
  "getUserHealthDetailed nd readAccount u = Some h \<Longrightarrow>
   user h = u \<and> bestDebt h = Some zeroAddress \<and> bestCollateral h = Some zeroAddress
   \<and> bestDebtAmount h = None"
  by (auto simp: getUserHealthDetailed_def split: option.splits)

lemma healthOfResult_calls: "set (snd (healthOfResult nd readAccount (r, u))) \<subseteq> {u}"
  by (auto simp: healthOfResult_def Let_def split: option.splits)

lemma batch_calls_subset:
  "set (concat (map snd (map (healthOfResult nd readAccount) (zip rs us)))) \<subseteq> set us"
proof (induction us arbitrary: rs)
  case Nil
  then show ?case by simp
next
  case (Cons u us)
  show ?case
  proof (cases rs)
    case Nil
    then show ?thesis by simp
  next
    case (Cons r rs')
    with Cons.IH [of rs'] healthOfResult_calls [of nd readAccount r u] show ?thesis by auto
  qed
qed

lemma healthOfResult_calls_distinct: "distinct (snd (healthOfResult nd readAccount ru))"
  by (auto simp: healthOfResult_def Let_def split: option.splits)

lemma batch_calls_distinct:
  "distinct us \<Longrightarrow> distinct (concat (map snd (map (healthOfResult nd readAccount) (zip rs us))))"
proof (induction us arbitrary: rs)
  case Nil
  then show ?case by simp
next
  case (Cons u us)
  show ?case
  proof (cases rs)
    case Nil
    then show ?thesis by simp
  next
    case (Cons r rs')
    have "set (snd (healthOfResult nd readAccount (r, u)))
            \<inter> set (concat (map snd (map (healthOfResult nd readAccount) (zip rs' us)))) = {}"
      using healthOfResult_calls [of nd readAccount r u] batch_calls_subset [of nd readAccount rs' us]
        Cons.prems by auto
    with Cons.IH [of rs'] Cons.prems Cons healthOfResult_calls_distinct [of nd readAccount "(r, u)"]
    show ?thesis by simp
  qed
qed

lemma count_list_distinct: "distinct xs \<Longrightarrow> x \<in> set xs \<Longrightarrow> count_list xs x = 1"
  by (induction xs) (auto simp: count_list_0_iff)

lemma batch_detailed:
  assumes "multicall users = Some results" and "length results = length users"
    and "distinct users" and "i < length users" and "results ! i = Some d"
    and "nd (a_healthFactor d) 18 < 1.1"
  shows "fst (getUsersHealthBatch nd multicall readAccount users) ! i
           = getUserHealthDetailed nd readAccount (users ! i)
       \<and> count_list (snd (getUsersHealthBatch nd multicall readAccount users)) (users ! i) = 1"
proof -
  let ?hs = "map (healthOfResult nd readAccount) (zip results users)"
  from assms(4) have nonempty: "length users \<noteq> 0" by auto
  have batch: "getUsersHealthBatch nd multicall readAccount users
                 = (map fst ?hs, concat (map snd ?hs))"
    using assms(1) nonempty by (simp add: getUsersHealthBatch_def Let_def)
  have ith: "?hs ! i = (getUserHealthDetailed nd readAccount (users ! i), [users ! i])"
    using assms by (simp add: healthOfResult_detailed)
  have len: "i < length ?hs" using assms by simp
  have "users ! i \<in> set (snd (?hs ! i))" using ith by simp
  with len have mem: "users ! i \<in> set (concat (map snd ?hs))"
    by (metis (no_types, lifting) UN_I length_map nth_map nth_mem set_concat)
  have "distinct (concat (map snd ?hs))" using assms(3) by (rule batch_calls_distinct)
  with mem have "count_list (concat (map snd ?hs)) (users ! i) = 1"
    by (rule count_list_distinct [rotated])
  with ith len show ?thesis by (simp add: batch)
qed

lemma reserveStep_debtInv:
  assumes "reads r = Some x" and "debtInv nd reads seen vars"
  shows "debtInv nd reads (seen @ [r]) (reserveStep nd r x vars)"
proof (cases "v_bestDebt vars")
  case None
  with assms show ?thesis
    by (auto simp: debtInv_def reserveStep_def Let_def)
next
  case (Some b)
  with assms show ?thesis
    by (auto simp: debtInv_def reserveStep_def Let_def)
qed

lemma reserveStep_collateralInv:
  assumes "reads r = Some x" and "collateralInv nd reads seen vars"
  shows "collateralInv nd reads (seen @ [r]) (reserveStep nd r x vars)"
proof (cases "v_bestCollateral vars")
  case None
  with assms show ?thesis
    by (auto simp: collateralInv_def reserveStep_def Let_def)
next
  case (Some b)
  with assms show ?thesis
    by (auto simp: collateralInv_def reserveStep_def Let_def)
qed

lemma reservesLoop_inv:
  assumes "reservesLoop nd reads rs vars = Some vars'"
    and "debtInv nd reads seen vars" and "collateralInv nd reads seen vars"
  shows "debtInv nd reads (seen @ rs) vars' \<and> collateralInv nd reads (seen @ rs) vars'"
  using assms
proof (induction rs arbitrary: seen vars)
  case Nil
  then show ?case by simp
next
  case (Cons r rs)
  from Cons.prems(1) obtain x where x: "reads r = Some x"
    and loop: "reservesLoop nd reads rs (reserveStep nd r x vars) = Some vars'"
    by (auto split: option.splits)
  have "debtInv nd reads (seen @ [r]) (reserveStep nd r x vars)"
    using x Cons.prems(2) by (rule reserveStep_debtInv)
  moreover have "collateralInv nd reads (seen @ [r]) (reserveStep nd r x vars)"
    using x Cons.prems(3) by (rule reserveStep_collateralInv)
  ultimately show ?case using Cons.IH [OF loop, of "seen @ [r]"] by simp
qed

lemma initVars_inv: "debtInv nd reads [] initVars \<and> collateralInv nd reads [] initVars"
  by (simp add: debtInv_def collateralInv_def initVars_def)

lemma zeroAddress_not_reserve: "zeroAddress \<notin> set TOP_RESERVES"
  by (simp add: zeroAddress_def TOP_RESERVES_def)

lemma reservesLoop_total:
  "\<forall>r \<in> set rs. reads r \<noteq> None \<Longrightarrow> \<exists>vars'. reservesLoop nd reads rs vars = Some vars'"
  by (induction rs arbitrary: vars) auto

lemma getUserAssets_total:
  assumes "setupOk" and "\<forall>r \<in> set TOP_RESERVES. reads u r \<noteq> None"
  shows "\<exists>a. getUserAssets nd setupOk reads u = Some a"
proof -
  from reservesLoop_total [OF assms(2)] obtain vars where
    "reservesLoop nd (reads u) TOP_RESERVES initVars = Some vars" by blast
  with assms(1) show ?thesis by (simp add: getUserAssets_def)
qed

lemma getUserAssets_vars:
  assumes "getUserAssets nd setupOk reads u = Some a"
  shows "\<exists>vars. debtInv nd (reads u) TOP_RESERVES vars
            \<and> collateralInv nd (reads u) TOP_RESERVES vars
            \<and> ua_bestDebt a = (case v_bestDebt vars of None \<Rightarrow> zeroAddress | Some b \<Rightarrow> b)
            \<and> ua_bestCollateral a
                 = (case v_bestCollateral vars of None \<Rightarrow> zeroAddress | Some b \<Rightarrow> b)
            \<and> ua_bestDebtAmount a = v_bestDebtAmount vars"
proof -
  from assms obtain vars where
    loop: "reservesLoop nd (reads u) TOP_RESERVES initVars = Some vars"
    and fields: "ua_bestDebt a = (case v_bestDebt vars of None \<Rightarrow> zeroAddress | Some b \<Rightarrow> b)"
      "ua_bestCollateral a = (case v_bestCollateral vars of None \<Rightarrow> zeroAddress | Some b \<Rightarrow> b)"
      "ua_bestDebtAmount a = v_bestDebtAmount vars"
    by (auto simp: getUserAssets_def split: if_splits option.splits)
  from reservesLoop_inv [OF loop, of "[]"] initVars_inv [of nd "reads u"]
  have "debtInv nd (reads u) TOP_RESERVES vars" "collateralInv nd (reads u) TOP_RESERVES vars"
    by simp_all
  with fields show ?thesis by blast
qed

lemma getUserAssets_debt:
  assumes "getUserAssets nd setupOk reads u = Some a"
  shows "(ua_bestDebt a \<noteq> zeroAddress \<longleftrightarrow>
            (\<exists>r \<in> set TOP_RESERVES. \<exists>y. reads u r = Some y \<and> 0 < r_debtBalance y
                \<and> 0 < usdValue nd (r_debtBalance y) (r_price y)))
       \<and> (ua_bestDebt a \<noteq> zeroAddress \<longrightarrow>
            ua_bestDebt a \<in> set TOP_RESERVES
            \<and> (\<exists>x. reads u (ua_bestDebt a) = Some x \<and> 0 < r_debtBalance x
                   \<and> ua_bestDebtAmount a = r_debtBalance x))
       \<and> (ua_bestDebt a = zeroAddress \<longrightarrow> ua_bestDebtAmount a = 0)"
proof -
  from getUserAssets_vars [OF assms] obtain vars where
    inv: "debtInv nd (reads u) TOP_RESERVES vars"
    and debt: "ua_bestDebt a = (case v_bestDebt vars of None \<Rightarrow> zeroAddress | Some b \<Rightarrow> b)"
    and amount: "ua_bestDebtAmount a = v_bestDebtAmount vars"
    by blast
  show ?thesis
  proof (cases "v_bestDebt vars")
    case None
    with inv have bound: "\<forall>r \<in> set TOP_RESERVES. \<forall>y. reads u r = Some y \<longrightarrow> 0 < r_debtBalance y
                     \<longrightarrow> usdValue nd (r_debtBalance y) (r_price y) \<le> 0"
      and zero: "v_bestDebtAmount vars = 0"
      by (auto simp: debtInv_def)
    from bound have "\<not> (\<exists>r \<in> set TOP_RESERVES. \<exists>y. reads u r = Some y \<and> 0 < r_debtBalance y
                \<and> 0 < usdValue nd (r_debtBalance y) (r_price y))"
      by fastforce
    with None debt amount zero show ?thesis by simp
  next
    case (Some b)
    with inv obtain x where b: "b \<in> set TOP_RESERVES" and x: "reads u b = Some x"
      "0 < r_debtBalance x" "r_debtBalance x = v_bestDebtAmount vars"
      "0 < usdValue nd (r_debtBalance x) (r_price x)"
      by (auto simp: debtInv_def)
    from b zeroAddress_not_reserve have nz: "b \<noteq> zeroAddress" by auto
    from Some debt have eq: "ua_bestDebt a = b" by simp
    from b x have ex: "\<exists>r \<in> set TOP_RESERVES. \<exists>y. reads u r = Some y \<and> 0 < r_debtBalance y
                \<and> 0 < usdValue nd (r_debtBalance y) (r_price y)"
      by blast
    have chosen: "\<exists>x. reads u b = Some x \<and> 0 < r_debtBalance x
                   \<and> ua_bestDebtAmount a = r_debtBalance x"
      using x amount by simp
    show ?thesis unfolding eq using nz ex b chosen by blast
  qed
qed

lemma getUserAssets_collateral:
  assumes "getUserAssets nd setupOk reads u = Some a"
  shows "(ua_bestCollateral a \<noteq> zeroAddress \<longleftrightarrow>
            (\<exists>r \<in> set TOP_RESERVES. \<exists>y. reads u r = Some y \<and> 0 < r_aTokenBalance y
                \<and> 0 < usdValue nd (r_aTokenBalance y) (r_price y)))
       \<and> (ua_bestCollateral a \<noteq> zeroAddress \<longrightarrow>
            ua_bestCollateral a \<in> set TOP_RESERVES
            \<and> (\<exists>x. reads u (ua_bestCollateral a) = Some x \<and> 0 < r_aTokenBalance x))"
proof -
  from getUserAssets_vars [OF assms] obtain vars where
    inv: "collateralInv nd (reads u) TOP_RESERVES vars"
    and coll: "ua_bestCollateral a
                 = (case v_bestCollateral vars of None \<Rightarrow> zeroAddress | Some b \<Rightarrow> b)"
    by blast
  show ?thesis
  proof (cases "v_bestCollateral vars")
    case None
    with inv have bound: "\<forall>r \<in> set TOP_RESERVES. \<forall>y. reads u r = Some y \<longrightarrow> 0 < r_aTokenBalance y
                     \<longrightarrow> usdValue nd (r_aTokenBalance y) (r_price y) \<le> 0"
      by (auto simp: collateralInv_def)
    from bound have "\<not> (\<exists>r \<in> set TOP_RESERVES. \<exists>y. reads u r = Some y \<and> 0 < r_aTokenBalance y
                \<and> 0 < usdValue nd (r_aTokenBalance y) (r_price y))"
      by fastforce
    with None coll show ?thesis by simp
  next
    case (Some b)
    with inv obtain x where b: "b \<in> set TOP_RESERVES" and x: "reads u b = Some x"
      "0 < r_aTokenBalance x" "0 < usdValue nd (r_aTokenBalance x) (r_price x)"
      by (auto simp: collateralInv_def)
    from b zeroAddress_not_reserve have nz: "b \<noteq> zeroAddress" by auto
    from Some coll have eq: "ua_bestCollateral a = b" by simp
    from b x have ex: "\<exists>r \<in> set TOP_RESERVES. \<exists>y. reads u r = Some y \<and> 0 < r_aTokenBalance y
                \<and> 0 < usdValue nd (r_aTokenBalance y) (r_price y)"
      by blast
    have chosen: "\<exists>x. reads u b = Some x \<and> 0 < r_aTokenBalance x"
      using x by blast
    show ?thesis unfolding eq using nz ex b chosen by blast
  qed
qed

lemma getUserHealthDetailed_result:
  "getUserHealthDetailed nd readAccount u =
     (case readAccount u of
        None \<Rightarrow> None
      | Some d \<Rightarrow>
          Some ((coarseHealth nd u d)
                  \<lparr> bestDebt := Some zeroAddress, bestCollateral := Some zeroAddress \<rparr>))"
  by (simp add: getUserHealthDetailed_def coarseHealth_def split: option.splits)

text \<open>
  The values \<open>getUserAssets\<close> compares are \<open>Number(balance * price) / 1e8\<close> on raw token
  units: the decimals of the token are never divided out. With a debt of 1000000 USDC
  (6 decimals, \<open>10^12\<close> raw units at 1 USD) and a debt of 0.001 WETH (18 decimals,
  \<open>10^15\<close> raw units at 3000 USD) the function returns WETH as the best debt asset.
\<close>

lemma getUserAssets_compares_raw_units:
  "getUserAssets exactDiv True
     (\<lambda>u reserve.
        if reserve = USDC
        then Some \<lparr> r_price = 100000000, r_aTokenBalance = 0, r_debtBalance = 1000000000000 \<rparr>
        else if reserve = WETH
        then Some \<lparr> r_price = 300000000000, r_aTokenBalance = 0,
                      r_debtBalance = 1000000000000000 \<rparr>
        else Some \<lparr> r_price = 100000000, r_aTokenBalance = 0, r_debtBalance = 0 \<rparr>)
     ''0xaa''
   = Some \<lparr> ua_bestDebt = WETH, ua_bestCollateral = zeroAddress,
            ua_bestDebtAmount = 1000000000000000 \<rparr>"
  by (simp add: getUserAssets_def reserveStep_def usdValue_def initVars_def exactDiv_def
      TOP_RESERVES_def USDC_def WETH_def Let_def)

text \<open>
  C5, as stated, fails: the snapshot the Health Engine returns for an account below the
  1.1 ceiling carries the zero address for both best assets and no debt amount
  (\<open>getUserHealthDetailed\<close> does not fetch them), while \<open>getUserAssets\<close> finds a USDC debt
  for the same account.
\<close>

theorem C5_snapshot_without_best_assets_counterexample:
  "exactDiv (a_healthFactor exampleAccount) 18 < 1.1
   \<and> fst (getUsersHealthBatch exactDiv (\<lambda>users. Some [Some exampleAccount])
            (\<lambda>u. Some exampleAccount) [''0xaa''])
       = [Some \<lparr> user = ''0xaa'', healthFactor = 0.95, totalCollateralUSD = 550,
                 totalDebtUSD = 500, bestDebt = Some zeroAddress,
                 bestCollateral = Some zeroAddress, bestDebtAmount = None \<rparr>]
   \<and> zeroAddress \<notin> set TOP_RESERVES
   \<and> getUserAssets exactDiv True exampleReads ''0xaa''
       = Some \<lparr> ua_bestDebt = USDC, ua_bestCollateral = WETH, ua_bestDebtAmount = 500000001 \<rparr>"
  by (simp add: getUsersHealthBatch_def healthOfResult_def getUserHealthDetailed_def
      exampleAccount_def exactDiv_def Let_def zeroAddress_def TOP_RESERVES_def
      getUserAssets_def reserveStep_def usdValue_def initVars_def exampleReads_def
      USDC_def WETH_def)

text \<open>
  C5 (amended): for every account whose batched health factor is below the 1.1 risk
  ceiling, the Health Engine performs one additional per-account detailed call and
  returns the snapshot of that call (\<open>null\<close> when the call fails): health factor and
  totals from the call, the best debt asset and the best collateral asset set to the
  zero-address placeholder, and no debt amount. The best pair is identified by
  \<open>getUserAssets\<close>, which the planner calls, among the fixed allow-listed reserve set. It
  returns an answer whenever its reads succeed. It returns a best debt (collateral) asset
  other than the zero address exactly when the account has, in some allow-listed reserve,
  a positive debt (collateral) balance to which the function gives a positive value; that
  asset is then an allow-listed reserve in which the account has a positive balance. The
  debt amount returned is the exact debt balance of the chosen debt asset, and \<open>0\<close> when
  there is none.
\<close>

theorem C5_detailed_call_and_best_pair:
  assumes "multicall users = Some results" and "length results = length users"
    and "distinct users" and "i < length users" and "results ! i = Some d"
    and "nd (a_healthFactor d) 18 < 1.1"
  shows "fst (getUsersHealthBatch nd multicall readAccount users) ! i
           = getUserHealthDetailed nd readAccount (users ! i)
     \<and> count_list (snd (getUsersHealthBatch nd multicall readAccount users)) (users ! i) = 1
     \<and> getUserHealthDetailed nd readAccount (users ! i)
         = (case readAccount (users ! i) of
              None \<Rightarrow> None
            | Some d2 \<Rightarrow>
                Some ((coarseHealth nd (users ! i) d2)
                        \<lparr> bestDebt := Some zeroAddress, bestCollateral := Some zeroAddress \<rparr>))
     \<and> (getUserHealthDetailed nd readAccount (users ! i) = Some h \<longrightarrow>
          user h = users ! i \<and> bestDebt h = Some zeroAddress
          \<and> bestCollateral h = Some zeroAddress \<and> bestDebtAmount h = None)
     \<and> (setupOk \<and> (\<forall>r \<in> set TOP_RESERVES. reads (users ! i) r \<noteq> None) \<longrightarrow>
          (\<exists>a'. getUserAssets nd setupOk reads (users ! i) = Some a'))
     \<and> (getUserAssets nd setupOk reads (users ! i) = Some a \<longrightarrow>
          (ua_bestDebt a \<noteq> zeroAddress \<longleftrightarrow>
             (\<exists>r \<in> set TOP_RESERVES. \<exists>y. reads (users ! i) r = Some y \<and> 0 < r_debtBalance y
                 \<and> 0 < usdValue nd (r_debtBalance y) (r_price y)))
          \<and> (ua_bestDebt a \<noteq> zeroAddress \<longrightarrow>
               ua_bestDebt a \<in> set TOP_RESERVES
               \<and> (\<exists>x. reads (users ! i) (ua_bestDebt a) = Some x \<and> 0 < r_debtBalance x
                      \<and> ua_bestDebtAmount a = r_debtBalance x))
          \<and> (ua_bestDebt a = zeroAddress \<longrightarrow> ua_bestDebtAmount a = 0)
          \<and> (ua_bestCollateral a \<noteq> zeroAddress \<longleftrightarrow>
               (\<exists>r \<in> set TOP_RESERVES. \<exists>y. reads (users ! i) r = Some y \<and> 0 < r_aTokenBalance y
                   \<and> 0 < usdValue nd (r_aTokenBalance y) (r_price y)))
          \<and> (ua_bestCollateral a \<noteq> zeroAddress \<longrightarrow>
               ua_bestCollateral a \<in> set TOP_RESERVES
               \<and> (\<exists>x. reads (users ! i) (ua_bestCollateral a) = Some x
                      \<and> 0 < r_aTokenBalance x)))"
proof -
  have batch: "fst (getUsersHealthBatch nd multicall readAccount users) ! i
           = getUserHealthDetailed nd readAccount (users ! i)
     \<and> count_list (snd (getUsersHealthBatch nd multicall readAccount users)) (users ! i) = 1"
    using assms by (rule batch_detailed)
  have total: "\<exists>a'. getUserAssets nd setupOk reads (users ! i) = Some a'"
    if "setupOk" "\<forall>r \<in> set TOP_RESERVES. reads (users ! i) r \<noteq> None"
    using that by (rule getUserAssets_total)
  show ?thesis
    using batch total
      getUserHealthDetailed_result [of nd readAccount "users ! i"]
      getUserHealthDetailed_placeholders [of nd readAccount "users ! i" h]
      getUserAssets_debt [of nd setupOk reads "users ! i" a]
      getUserAssets_collateral [of nd setupOk reads "users ! i" a]
    by blast
qed

theorem C5_detailed_call_and_best_pair_witness:
  "(\<lambda>users. Some [Some exampleAccount]) [''0xaa''] = Some [Some exampleAccount]
   \<and> length [Some exampleAccount] = length [''0xaa''] \<and> distinct [''0xaa'']
   \<and> (0::nat) < length [''0xaa''] \<and> [Some exampleAccount] ! 0 = Some exampleAccount
   \<and> exactDiv (a_healthFactor exampleAccount) 18 < 1.1
   \<and> getUserHealthDetailed exactDiv (\<lambda>u. Some exampleAccount) ''0xaa'' = Some exampleSnapshot
   \<and> \<not> (\<exists>r \<in> set TOP_RESERVES. exampleReads ''0xaa'' r = None)
   \<and> getUserAssets exactDiv True exampleReads ''0xaa'' = Some exampleAssets
   \<and> USDC \<in> set TOP_RESERVES
   \<and> exampleReads ''0xaa'' USDC
       = Some \<lparr> r_price = 100000000, r_aTokenBalance = 0, r_debtBalance = 500000001 \<rparr>
   \<and> 0 < usdValue exactDiv 500000001 100000000
   \<and> ua_bestDebt exampleAssets \<noteq> zeroAddress \<and> ua_bestCollateral exampleAssets \<noteq> zeroAddress
   \<and> fst (getUsersHealthBatch exactDiv (\<lambda>users. Some [Some exampleAccount])
            (\<lambda>u. Some exampleAccount) [''0xaa'']) ! 0 = Some exampleSnapshot
   \<and> count_list (snd (getUsersHealthBatch exactDiv (\<lambda>users. Some [Some exampleAccount])
            (\<lambda>u. Some exampleAccount) [''0xaa''])) ''0xaa'' = 1
   \<and> bestDebt exampleSnapshot = Some zeroAddress
   \<and> ua_bestDebt exampleAssets \<in> set TOP_RESERVES
   \<and> ua_bestCollateral exampleAssets \<in> set TOP_RESERVES
   \<and> ua_bestDebtAmount exampleAssets = 500000001"
proof -
  have h6: "exactDiv (a_healthFactor exampleAccount) 18 < 1.1"
    by (simp add: exactDiv_def exampleAccount_def)
  have detailed:
    "getUserHealthDetailed exactDiv (\<lambda>u. Some exampleAccount) ''0xaa'' = Some exampleSnapshot"
    by (simp add: getUserHealthDetailed_def exampleAccount_def exampleSnapshot_def exactDiv_def)
  have reads: "\<not> (\<exists>r \<in> set TOP_RESERVES. exampleReads ''0xaa'' r = None)"
    by (simp add: exampleReads_def)
  have assets: "getUserAssets exactDiv True exampleReads ''0xaa'' = Some exampleAssets"
    by (simp add: getUserAssets_def reserveStep_def usdValue_def initVars_def exampleReads_def
        exampleAssets_def exactDiv_def TOP_RESERVES_def USDC_def WETH_def Let_def)
  have usdc: "USDC \<in> set TOP_RESERVES"
    "exampleReads ''0xaa'' USDC
       = Some \<lparr> r_price = 100000000, r_aTokenBalance = 0, r_debtBalance = 500000001 \<rparr>"
    "0 < usdValue exactDiv 500000001 100000000"
    by (simp_all add: TOP_RESERVES_def USDC_def exampleReads_def usdValue_def exactDiv_def)
  have nonzero: "ua_bestDebt exampleAssets \<noteq> zeroAddress"
    "ua_bestCollateral exampleAssets \<noteq> zeroAddress"
    by (simp_all add: exampleAssets_def USDC_def WETH_def zeroAddress_def)
  have amount: "ua_bestDebtAmount exampleAssets = 500000001"
    by (simp add: exampleAssets_def)
  from C5_detailed_call_and_best_pair
    [where multicall = "\<lambda>users. Some [Some exampleAccount]" and users = "[''0xaa'']"
       and results = "[Some exampleAccount]" and i = 0 and d = exampleAccount
       and nd = exactDiv and readAccount = "\<lambda>u. Some exampleAccount"
       and h = exampleSnapshot and setupOk = True and reads = exampleReads
       and a = exampleAssets]
    h6 detailed assets nonzero
  have "fst (getUsersHealthBatch exactDiv (\<lambda>users. Some [Some exampleAccount])
            (\<lambda>u. Some exampleAccount) [''0xaa'']) ! 0 = Some exampleSnapshot
   \<and> count_list (snd (getUsersHealthBatch exactDiv (\<lambda>users. Some [Some exampleAccount])
            (\<lambda>u. Some exampleAccount) [''0xaa''])) ''0xaa'' = 1
   \<and> bestDebt exampleSnapshot = Some zeroAddress
   \<and> ua_bestDebt exampleAssets \<in> set TOP_RESERVES
   \<and> ua_bestCollateral exampleAssets \<in> set TOP_RESERVES"
    by simp
  with h6 detailed reads assets usdc nonzero amount show ?thesis by simp
qed

section \<open>Planner: repay amount\<close>

lemma bigintDiv_half_floor: "0 < a \<Longrightarrow> bigintDiv a 2 = \<lfloor>real_of_int a / 2\<rfloor>"
  using floor_divide_of_int_eq [of a 2, where ?'a = real]
  by (simp add: bigintDiv_def)

lemma planItem_order:
  assumes "planItem env tDeadline tNonce fetchAssets c = Inr (Some item)"
    and "i_order item = Some order"
  shows "c_status c = exec_ready \<and> c_borrower c = o_borrower order
     \<and> (\<exists>outstandingDebt. 0 < outstandingDebt
          \<and> (if isMissing (c_bestDebt c)
              then (\<exists>assets. fetchAssets (c_borrower c) = Some assets
                      \<and> ua_bestDebtAmount assets = outstandingDebt)
              else c_bestDebtAmount c = Some outstandingDebt)
          \<and> o_repayAmount order = \<lfloor>real_of_int outstandingDebt / 2\<rfloor>)"
proof (cases "isMissing (c_bestDebt c)")
  case True
  with assms show ?thesis
    by (auto simp: planItem_def Let_def bigintDiv_half_floor
        split: if_splits option.splits prod.splits)
next
  case False
  with assms show ?thesis
    by (auto simp: planItem_def Let_def bigintDiv_half_floor
        split: if_splits option.splits prod.splits)
qed

lemma planItems_member:
  assumes "planItems env clock fetchAssets k cs = Inr items" and "item \<in> set items"
  shows "\<exists>c \<in> set cs. \<exists>j. planItem env (fst (clock j)) (snd (clock j)) fetchAssets c
           = Inr (Some item)"
  using assms
proof (induction cs arbitrary: k items)
  case Nil
  then show ?case by simp
next
  case (Cons c cs)
  from Cons.prems(1) obtain r rest where
    r: "planItem env (fst (clock k)) (snd (clock k)) fetchAssets c = Inr r"
    and rest: "planItems env clock fetchAssets (k + 1) cs = Inr rest"
    and items: "items = (case r of None \<Rightarrow> [] | Some i \<Rightarrow> [i]) @ rest"
    by (auto split: sum.splits)
  show ?case
  proof (cases "item \<in> set rest")
    case True
    with Cons.IH [OF rest] show ?thesis by auto
  next
    case False
    with Cons.prems(2) items have "r = Some item" by (auto split: option.splits)
    with r show ?thesis by auto
  qed
qed

text \<open>
  C2: every order of a plan written by \<open>planCmd\<close> belongs to an \<open>exec_ready\<close> candidate
  and its repay amount is \<open>floor(outstandingDebt / 2)\<close>, where the outstanding debt is the
  candidate's best-debt raw amount, or the amount \<open>getUserAssets\<close> returns when the
  candidate's best debt asset is missing; the arithmetic is on unbounded integers.
\<close>

theorem C2_repay_amount_half_outstanding_debt:
  assumes "planCmd env clock fetchAssets (Some candidates) = Inr plan"
    and "item \<in> set (tp_items plan)"
    and "i_order item = Some order"
  shows "\<exists>c \<in> set candidates. c_status c = exec_ready \<and> c_borrower c = o_borrower order
     \<and> (\<exists>outstandingDebt. 0 < outstandingDebt
          \<and> (if isMissing (c_bestDebt c)
              then (\<exists>assets. fetchAssets (c_borrower c) = Some assets
                      \<and> ua_bestDebtAmount assets = outstandingDebt)
              else c_bestDebtAmount c = Some outstandingDebt)
          \<and> o_repayAmount order = \<lfloor>real_of_int outstandingDebt / 2\<rfloor>)"
proof -
  from assms(1) obtain items where
    items: "planItems env clock fetchAssets 0 candidates = Inr items"
    and plan: "tp_items plan = items"
    by (auto simp: planCmd_def split: sum.splits)
  from assms(2) plan have "item \<in> set items" by simp
  from planItems_member [OF items this] obtain c j where
    "c \<in> set candidates"
    and "planItem env (fst (clock j)) (snd (clock j)) fetchAssets c = Inr (Some item)"
    by blast
  with planItem_order [OF _ assms(3)] show ?thesis by blast
qed


theorem C2_repay_amount_half_outstanding_debt_witness:
  "planCmd examplePlanEnv (\<lambda>k. (1700000001000, 1700000001001)) (\<lambda>u. Some exampleAssets)
       (Some [exampleCandidate])
     = Inr \<lparr> tp_items =
              [\<lparr> i_ts = 1700000000500, i_candidateId = ''42161|0xaa|aave'',
                 i_borrower = ''0xaa'', i_netProfitUsd = 0, i_proximity = 1 / 0.95,
                 i_action = EXEC, i_pass = True, i_note = EXEC_READY_ORDER_BUILT,
                 i_order = Some
                   \<lparr> o_debtAsset = zeroAddress, o_collateralAsset = zeroAddress,
                     o_borrower = ''0xaa'', o_repayAmount = 250000000,
                     o_uniPath = encodeV3Path [zeroAddress, zeroAddress] [3000],
                     o_amountOutMin = 0, o_minProfit = 0, o_deadline = 1700000301,
                     o_maxTxGasPrice = 0, o_referralCode = 0, o_nonce = 1700000001001 \<rparr> \<rparr>],
            tp_generatedAt = Some 1700000000500, tp_execBuilt = 1 \<rparr>
   \<and> isMissing (c_bestDebt exampleCandidate)
   \<and> ua_bestDebtAmount exampleAssets = 500000001
   \<and> \<lfloor>real_of_int 500000001 / 2\<rfloor> = (250000000::int)"
proof -
  let ?order = "\<lparr> o_debtAsset = zeroAddress, o_collateralAsset = zeroAddress,
                     o_borrower = ''0xaa'', o_repayAmount = 250000000,
                     o_uniPath = encodeV3Path [zeroAddress, zeroAddress] [3000],
                     o_amountOutMin = 0, o_minProfit = 0, o_deadline = 1700000301,
                     o_maxTxGasPrice = 0, o_referralCode = 0, o_nonce = 1700000001001 \<rparr>"
  let ?item = "\<lparr> i_ts = 1700000000500, i_candidateId = ''42161|0xaa|aave'',
                 i_borrower = ''0xaa'', i_netProfitUsd = 0, i_proximity = 1 / 0.95,
                 i_action = EXEC, i_pass = True, i_note = EXEC_READY_ORDER_BUILT,
                 i_order = Some ?order \<rparr>"
  let ?plan = "\<lparr> tp_items = [?item], tp_generatedAt = Some 1700000000500, tp_execBuilt = 1 \<rparr>"
  have plan: "planCmd examplePlanEnv (\<lambda>k. (1700000001000, 1700000001001))
                (\<lambda>u. Some exampleAssets) (Some [exampleCandidate]) = Inr ?plan"
    by (simp add: planCmd_def planItem_def exampleCandidate_def exampleAssets_def
        examplePlanEnv_def isMissing_def zeroAddress_def USDC_def WETH_def bigintDiv_def)
  have item: "?item \<in> set (tp_items ?plan)" by simp
  have order: "i_order ?item = Some ?order" by simp
  from C2_repay_amount_half_outstanding_debt [OF plan item order]
  have "\<lfloor>real_of_int 500000001 / 2\<rfloor> = (250000000::int)"
    by (simp add: exampleCandidate_def exampleAssets_def isMissing_def)
  with plan show ?thesis
    by (simp add: exampleCandidate_def exampleAssets_def isMissing_def)
qed

section \<open>Swap path round trip\<close>

lemma hexValue_hexDigit_all: "\<forall>d \<in> set [0..<16]. hexValue (hexDigit d) = Some d"
  by code_simp

lemma hexValue_hexDigit: "d < 16 \<Longrightarrow> hexValue (hexDigit d) = Some d"
  using hexValue_hexDigit_all by simp

lemma parseHexFrom_append:
  "parseHexFrom acc (xs @ ys) =
     (case parseHexFrom acc xs of None \<Rightarrow> None | Some v \<Rightarrow> parseHexFrom v ys)"
  by (induction xs arbitrary: acc) (auto split: option.splits)

lemma parseHexFrom_toString16:
  "parseHexFrom acc (toString16 n) = Some (acc * 16 ^ length (toString16 n) + n)"
proof (induction n arbitrary: acc rule: toString16.induct)
  case (1 n)
  show ?case
  proof (cases "n < 16")
    case True
    then show ?thesis
      by (subst (1 2) toString16.simps) (simp add: hexValue_hexDigit)
  next
    case False
    have digit: "hexValue (hexDigit (n mod 16)) = Some (n mod 16)"
      by (rule hexValue_hexDigit) simp
    from False have unfold: "toString16 n = toString16 (n div 16) @ [hexDigit (n mod 16)]"
      by (subst toString16.simps) simp
    show ?thesis
      unfolding unfold
      by (simp add: parseHexFrom_append "1.IH" [OF False] digit algebra_simps)
  qed
qed

lemma length_toString16:
  "n < 16 ^ k \<Longrightarrow> 0 < k \<Longrightarrow> length (toString16 n) \<le> k"
proof (induction n arbitrary: k rule: toString16.induct)
  case (1 n)
  show ?case
  proof (cases "n < 16")
    case True
    with "1.prems" show ?thesis by (subst toString16.simps) simp
  next
    case False
    from "1.prems" obtain j where k: "k = Suc j" by (cases k) auto
    from False "1.prems" k have "0 < j" by (cases j) auto
    moreover from "1.prems" k have "n div 16 < 16 ^ j"
      by (simp add: less_mult_imp_div_less mult.commute)
    ultimately have "length (toString16 (n div 16)) \<le> j"
      using "1.IH" [OF False] by simp
    with False k show ?thesis by (subst toString16.simps) simp
  qed
qed

lemma hexValue_zero: "hexValue (CHR ''0'') = Some 0"
  by code_simp

lemma parseHexFrom_zeros:
  "parseHexFrom 0 (replicate k (CHR ''0'') @ s) = parseHexFrom 0 s"
  by (induction k) (simp_all add: hexValue_zero)

lemma padFee3Bytes_length:
  assumes "0 \<le> f" and "f < 2 ^ 24"
  shows "length (padFee3Bytes (Some f)) = 6"
proof -
  from assms have "nat f < 16 ^ 6" by (simp add: nat_less_iff)
  then have "length (toString16 (nat f)) \<le> 6" by (rule length_toString16) simp
  with assms show ?thesis by (simp add: padFee3Bytes_def padStart_def)
qed

lemma padFee3Bytes_parse:
  assumes "0 \<le> f"
  shows "parseHexFrom 0 (padFee3Bytes (Some f)) = Some (nat f)"
  using assms
  by (simp add: padFee3Bytes_def padStart_def parseHexFrom_zeros parseHexFrom_toString16)

lemma hexNo0x_address:
  assumes "take 2 t = ''0x''" and "length t = 42"
  shows "length (hexNo0x t) = 40 \<and> ''0x'' @ hexNo0x t = t"
proof -
  have "take 2 t @ drop 2 t = t" by (rule append_take_drop_id)
  with assms show ?thesis by (simp add: hexNo0x_def)
qed

lemma decodeHops_encodeHops:
  assumes "length fees = length bs"
    and "\<forall>t \<in> set bs. take 2 t = ''0x'' \<and> length t = 42"
    and "\<forall>f \<in> set fees. 0 \<le> f \<and> f < 2 ^ 24"
  shows "decodeHops_spec (encodeHops bs fees) = Some (bs, fees)"
  using assms
proof (induction bs arbitrary: fees)
  case Nil
  then show ?case by (simp add: decodeHops_spec.simps)
next
  case (Cons b bs)
  then obtain f fs where fees: "fees = f # fs" by (cases fees) auto
  with Cons.prems have f: "0 \<le> f" "f < 2 ^ 24" by auto
  from Cons.prems have b: "length (hexNo0x b) = 40" "''0x'' @ hexNo0x b = b"
    using hexNo0x_address [of b] by auto
  have len6: "length (padFee3Bytes (Some f)) = 6" using f by (rule padFee3Bytes_length)
  have parse: "parseHexFrom 0 (padFee3Bytes (Some f)) = Some (nat f)"
    using f(1) by (rule padFee3Bytes_parse)
  have rest: "decodeHops_spec (encodeHops bs fs) = Some (bs, fs)"
    using Cons.IH [of fs] Cons.prems fees by simp
  let ?s = "padFee3Bytes (Some f) @ hexNo0x b @ encodeHops bs fs"
  have "?s \<noteq> []" using b by auto
  moreover have "\<not> length ?s < 46" using len6 b by simp
  moreover have "take 6 ?s = padFee3Bytes (Some f)" using len6 by simp
  moreover have "take 40 (drop 6 ?s) = hexNo0x b" using len6 b by simp
  moreover have "drop 46 ?s = encodeHops bs fs" using len6 b by simp
  ultimately have "decodeHops_spec ?s = Some (b # bs, f # fs)"
    using parse rest b f by (subst decodeHops_spec.simps) simp
  then show ?case by (simp add: fees)
qed

text \<open>
  C10: for every list of \<open>n \<ge> 2\<close> token addresses (\<open>0x\<close> and 40 digits, that is 20
  bytes) and every list of \<open>n - 1\<close> fees that fit in 3 bytes, decoding the path produced
  by \<open>encodeV3Path\<close> recovers the token sequence and the fees.
\<close>

theorem C10_swap_path_round_trip:
  assumes "2 \<le> length tokens"
    and "length fees = length tokens - 1"
    and "\<forall>t \<in> set tokens. take 2 t = ''0x'' \<and> length t = 42"
    and "\<forall>f \<in> set fees. 0 \<le> f \<and> f < 2 ^ 24"
  shows "decodeV3Path_spec (encodeV3Path tokens fees) = Some (tokens, fees)"
proof -
  from assms(1) obtain a bs where tokens: "tokens = a # bs" and bs: "bs \<noteq> []"
    by (cases tokens) fastforce+
  from assms(3) tokens have a: "length (hexNo0x a) = 40" "''0x'' @ hexNo0x a = a"
    using hexNo0x_address [of a] by auto
  have hops: "decodeHops_spec (encodeHops bs fees) = Some (bs, fees)"
    using assms tokens by (intro decodeHops_encodeHops) auto
  show ?thesis
    using a bs hops by (simp add: decodeV3Path_spec_def encodeV3Path_def tokens)
qed

lemma encodeV3Path_example:
  "encodeV3Path [WETH, USDC] [3000]
     = ''0x82aF49447D8a07e3bd95BD0d56f35241523fBab1000bb8af88d065e77c8cC2239327C5EDb3A432268e5831''"
  by code_simp

theorem C10_swap_path_round_trip_witness:
  "2 \<le> length [WETH, USDC, ''0xFd086bC7CD5C481DCC9C85ebE478A1C0b69FCbb9'']
   \<and> length [3000, 500::int]
       = length [WETH, USDC, ''0xFd086bC7CD5C481DCC9C85ebE478A1C0b69FCbb9''] - 1
   \<and> take 2 WETH = ''0x'' \<and> length WETH = 42 \<and> take 2 USDC = ''0x'' \<and> length USDC = 42
   \<and> (0::int) \<le> 3000 \<and> (3000::int) < 2 ^ 24 \<and> (0::int) \<le> 500 \<and> (500::int) < 2 ^ 24
   \<and> decodeV3Path_spec
        (encodeV3Path [WETH, USDC, ''0xFd086bC7CD5C481DCC9C85ebE478A1C0b69FCbb9''] [3000, 500])
       = Some ([WETH, USDC, ''0xFd086bC7CD5C481DCC9C85ebE478A1C0b69FCbb9''], [3000, 500])
   \<and> decodeV3Path_spec
        ''0x82aF49447D8a07e3bd95BD0d56f35241523fBab1000bb8af88d065e77c8cC2239327C5EDb3A432268e5831''
       = Some ([WETH, USDC], [3000])"
  using
    C10_swap_path_round_trip
      [of "[WETH, USDC, ''0xFd086bC7CD5C481DCC9C85ebE478A1C0b69FCbb9'']" "[3000, 500]"]
    C10_swap_path_round_trip [of "[WETH, USDC]" "[3000]"]
    encodeV3Path_example
  by (simp add: WETH_def USDC_def)

section \<open>Execution Safety Layer: staleness guard\<close>

lemma sort_key_Nil_iff: "sort_key f xs = [] \<longleftrightarrow> xs = []"
  using length_sort [of f xs] by (cases xs) auto

text \<open>
  C3: when the plan's generation timestamp is more than 90 seconds older than the clock
  reading of the staleness check, \<open>execCmd\<close> returns without a simulation, a broadcast
  or a blacklist write, and the blacklist file is as it was; when the preliminary checks
  pass and the plan holds an executable item, the outcome is the stale-plan abort.
\<close>

theorem C3_stale_plan_aborts_cycle:
  assumes "tp_generatedAt plan = Some generatedAt"
    and "real_of_int (tAge - generatedAt) / 1000 > maxAgeSec"
  shows "fst (snd (execCmd cfg w tStart tAge bl (Some plan))) = []
     \<and> snd (snd (execCmd cfg w tStart tAge bl (Some plan))) = bl
     \<and> (cfg_execEnabled cfg \<and> cfg_hasPrivateKey cfg \<and> cfg_executorAddrValid cfg
          \<and> filter (\<lambda>x. i_action x = EXEC \<and> i_pass x \<and> i_order x \<noteq> None) (tp_items plan) \<noteq> []
        \<longrightarrow> fst (execCmd cfg w tStart tAge bl (Some plan)) = StalePlan)"
  using assms by (simp add: execCmd_def Let_def sort_key_Nil_iff)

theorem C3_stale_plan_aborts_cycle_witness:
  "tp_generatedAt examplePlan = Some 1700000000500
   \<and> real_of_int (1700000120500 - 1700000000500) / 1000 = 120
   \<and> (120::real) > maxAgeSec
   \<and> cfg_execEnabled exampleConfig \<and> cfg_hasPrivateKey exampleConfig
   \<and> cfg_executorAddrValid exampleConfig
   \<and> filter (\<lambda>x. i_action x = EXEC \<and> i_pass x \<and> i_order x \<noteq> None) (tp_items examplePlan) \<noteq> []
   \<and> execCmd exampleConfig exampleWorld 1700000120000 1700000120500 None (Some examplePlan)
       = (StalePlan, [], None)"
  using C3_stale_plan_aborts_cycle
    [of examplePlan 1700000000500 1700000120500 exampleConfig exampleWorld 1700000120000 None]
  by (simp add: examplePlan_def exampleConfig_def maxAgeSec_def prod_eq_iff)

text \<open>
  For contrast, the same plan at an age of 60 seconds is processed: the order is
  simulated with a refreshed deadline and nonce, the revert is classified, and the
  borrower is blacklisted for one hour.
\<close>

lemma execCmd_fresh_plan_is_processed:
  "execCmd exampleConfig exampleWorld 1700000060000 1700000060500 None (Some examplePlan)
     = (NoExecutableOrder,
        [Simulated (exampleOrder\<lparr> o_deadline := 1700000240, o_nonce := 1700000060001 \<rparr>),
         Blacklisted ''0xaa'' SKIP_HEALTHY],
        Some [''0xaa'' \<mapsto> 1700003661000])"
  by (simp add: execCmd_def examplePlan_def exampleConfig_def exampleWorld_def maxAgeSec_def
      Let_def classifyErr_def toLowerCase_def lowerChar_def addToBlacklist_def
      cleanupExpired_def loadBlacklist_def saveBlacklist_def defaultDurationMs_def)

end
